theory Spec2Isabelle
  imports Main
begin

section \<open>JavaScript values and property reads\<close>

text \<open>
  The sources are untyped JavaScript. Themes, slides and presentations are plain data
  (object literals, or JSON received from the backend), so a value is \<open>undefined\<close>,
  \<open>null\<close>, a boolean, an integer-valued number, a string, an array or an object; an
  object is the list of its own properties, read with \<open>map_of\<close>. \<open>Builtin n\<close> is a
  built-in function or object of the language that a read through the prototype chain
  returns (\<open>obj.toString\<close>); data handed to the functions below does not contain one.
\<close>

datatype jsval =
    Undefined
  | Null
  | Boolean bool
  | Number int
  | Str string
  | Arr "jsval list"
  | Obj "(string \<times> jsval) list"
  | Builtin string

type_synonym props = "(string \<times> jsval) list"

text \<open>
  The exceptions the modelled code can raise are the two TypeErrors of the language:
  reading a property of \<open>undefined\<close> or \<open>null\<close>, and calling something that is not a
  function. \<open>OutsideModel\<close> is no exception of the language: it marks an evaluation
  that needed a table of the language which the instance at hand does not supply (see
  \<open>no_intrinsics\<close> below).
\<close>

datatype error =
    CannotReadProperty jsval string
  | NotAFunction string
  | OutsideModel

definition bindE :: "error + 'a \<Rightarrow> ('a \<Rightarrow> error + 'b) \<Rightarrow> error + 'b" where
  "bindE m f = (case m of Inl e \<Rightarrow> Inl e | Inr v \<Rightarrow> f v)"

fun mapE :: "('a \<Rightarrow> error + 'b) \<Rightarrow> 'a list \<Rightarrow> error + 'b list" where
  "mapE f [] = Inr []"
| "mapE f (x # xs) = bindE (f x) (\<lambda>y. bindE (mapE f xs) (\<lambda>ys. Inr (y # ys)))"

text \<open>Truthiness, as \<open>if (v)\<close>, \<open>a || b\<close> and \<open>a && b\<close> test it.\<close>

fun truthy :: "jsval \<Rightarrow> bool" where
  "truthy Undefined = False"
| "truthy Null = False"
| "truthy (Boolean b) = b"
| "truthy (Number n) = (n \<noteq> 0)"
| "truthy (Str s) = (s \<noteq> [])"
| "truthy (Arr xs) = True"
| "truthy (Obj ps) = True"
| "truthy (Builtin n) = True"

definition js_or :: "jsval \<Rightarrow> jsval \<Rightarrow> jsval" where
  "js_or a b = (if truthy a then a else b)"

text \<open>\<open>typeof v === 'object' && v !== null\<close>: built-in functions have type \<open>function\<close>.\<close>

fun is_object :: "jsval \<Rightarrow> bool" where
  "is_object (Arr xs) = True"
| "is_object (Obj ps) = True"
| "is_object (Builtin n) = (n = ''Object.prototype'')"
| "is_object v = False"

text \<open>
  An object literal inherits from \<open>Object.prototype\<close>. A read \<open>obj[k]\<close> that finds no
  own property \<open>k\<close> continues there: it yields the built-in member of that name, the
  prototype itself for \<open>__proto__\<close>, and \<open>undefined\<close> for every other name.
\<close>

definition object_prototype_members :: "string list" where
  "object_prototype_members =
     [''constructor'', ''hasOwnProperty'', ''isPrototypeOf'', ''propertyIsEnumerable'',
      ''toLocaleString'', ''toString'', ''valueOf'',
      ''__defineGetter__'', ''__defineSetter__'', ''__lookupGetter__'', ''__lookupSetter__'']"

definition inherited :: "string \<Rightarrow> jsval" where
  "inherited k =
     (if k = ''__proto__'' then Builtin ''Object.prototype''
      else if k \<in> set object_prototype_members then Builtin k
      else Undefined)"

definition read_object :: "props \<Rightarrow> string \<Rightarrow> jsval" where
  "read_object ps k = (case map_of ps k of Some v \<Rightarrow> v | None \<Rightarrow> inherited k)"

text \<open>
  What a read on a primitive, an array or a built-in yields (\<open>'abc'.length\<close>,
  \<open>fn.name\<close>), the text a template literal inserts for a number, an array, an object
  or a built-in, and the indexed properties a spread copies out of a string or an array,
  are tables of the language, not of this repository. They are a parameter of the model:
  the fields \<open>prim_member\<close>, \<open>prim_text\<close> and \<open>prim_spread\<close> of an \<open>intrinsics\<close>
  record. Every general statement below holds for every such record.
  \<open>no_intrinsics\<close> is the instance used where a closed evaluation needs one: it
  answers every such read and conversion with \<open>OutsideModel\<close>, and its spread copies
  nothing. No exception is ever caught in the modelled code, so an evaluation under
  \<open>no_intrinsics\<close> whose result is not \<open>OutsideModel\<close> has taken no member and no text
  from these tables; the closed evaluations below spread objects only.
\<close>

record intrinsics =
  prim_member :: "jsval \<Rightarrow> string \<Rightarrow> error + jsval"
  prim_text :: "jsval \<Rightarrow> error + string"
  prim_spread :: "jsval \<Rightarrow> props"

definition no_intrinsics :: intrinsics where
  "no_intrinsics =
     \<lparr> prim_member = (\<lambda>v k. Inl OutsideModel), prim_text = (\<lambda>v. Inl OutsideModel),
       prim_spread = (\<lambda>v. []) \<rparr>"

text \<open>The property read \<open>v.k\<close> or \<open>v[k]\<close>.\<close>

fun get :: "intrinsics \<Rightarrow> jsval \<Rightarrow> string \<Rightarrow> error + jsval" where
  "get I Undefined k = Inl (CannotReadProperty Undefined k)"
| "get I Null k = Inl (CannotReadProperty Null k)"
| "get I (Obj ps) k = Inr (read_object ps k)"
| "get I v k = prim_member I v k"

text \<open>The two-step read \<open>v.a.b\<close>.\<close>

definition get2 :: "intrinsics \<Rightarrow> jsval \<Rightarrow> string \<Rightarrow> string \<Rightarrow> error + jsval" where
  "get2 I v a b = bindE (get I v a) (\<lambda>x. get I x b)"

text \<open>The text of a value inside a template literal or as a property key.\<close>

fun toString :: "intrinsics \<Rightarrow> jsval \<Rightarrow> error + string" where
  "toString I Undefined = Inr ''undefined''"
| "toString I Null = Inr ''null''"
| "toString I (Boolean b) = Inr (if b then ''true'' else ''false'')"
| "toString I (Str s) = Inr s"
| "toString I v = prim_text I v"

text \<open>
  An object literal \<open>{...base, k: v}\<close>: \<open>assign\<close> overwrites the property where it
  stands or appends it; \<open>overlay\<close> does so for each listed property in turn.
\<close>

fun assign :: "string \<Rightarrow> jsval \<Rightarrow> props \<Rightarrow> props" where
  "assign k v [] = [(k, v)]"
| "assign k v ((k', v') # ps) = (if k' = k then (k, v) # ps else (k', v') # assign k v ps)"

definition overlay :: "props \<Rightarrow> props \<Rightarrow> props" where
  "overlay base new = foldl (\<lambda>ps (k, v). assign k v ps) base new"

text \<open>
  The own enumerable properties that a spread \<open>...v\<close> copies: those of an object; none
  for \<open>undefined\<close>, \<open>null\<close>, a boolean or a number.
\<close>

fun spread :: "intrinsics \<Rightarrow> jsval \<Rightarrow> props" where
  "spread I (Obj ps) = ps"
| "spread I Undefined = []"
| "spread I Null = []"
| "spread I (Boolean b) = []"
| "spread I (Number n) = []"
| "spread I v = prim_spread I v"

text \<open>
  \<open>xs.map(f)\<close> for a callback \<open>f\<close> that may throw: on an array the callback runs on
  each element in order; \<open>undefined\<close> and \<open>null\<close> have no property \<open>map\<close> to read; any
  other data value has no function there.
\<close>

definition js_map :: "intrinsics \<Rightarrow> jsval \<Rightarrow> (nat \<times> jsval \<Rightarrow> error + 'a) \<Rightarrow> error + 'a list" where
  "js_map I xs f =
     (case xs of
        Arr elems \<Rightarrow> mapE f (enumerate 0 elems)
      | _ \<Rightarrow> bindE (get I xs ''map'') (\<lambda>m. Inl (NotAFunction ''map'')))"

section \<open>config/theme.jsx: the registered themes\<close>

definition font_sizes :: jsval where
  "font_sizes = Obj [(''title'', Number 44), (''subtitle'', Number 32),
                     (''content'', Number 18), (''bullet'', Number 16)]"

definition corporate_blue :: jsval where
  "corporate_blue = Obj
     [(''id'', Str ''corporate_blue''),
      (''name'', Str ''Corporate Blue''),
      (''colors'', Obj
         [(''primary'', Str ''#1a73e8''), (''secondary'', Str ''#4285f4''),
          (''accent'', Str ''#34a853''), (''background'', Str ''#ffffff''),
          (''background_end'', Str ''#f8f9fa''), (''text'', Str ''#202124''),
          (''text_secondary'', Str ''#5f6368''), (''text_light'', Str ''#ffffff'')]),
      (''fonts'', Obj
         [(''title'', Str ''Arial''), (''content'', Str ''Roboto''),
          (''heading'', Str ''Arial''), (''body'', Str ''Roboto''),
          (''sizes'', font_sizes)]),
      (''gradient'', Obj [(''angle'', Number 135)]),
      (''iconStyle'', Str ''modern''),
      (''layoutPreference'', Str ''balanced'')]"

definition elegant_dark :: jsval where
  "elegant_dark = Obj
     [(''id'', Str ''elegant_dark''),
      (''name'', Str ''Elegant Dark''),
      (''colors'', Obj
         [(''primary'', Str ''#9333ea''), (''secondary'', Str ''#6366f1''),
          (''accent'', Str ''#ec4899''), (''background'', Str ''#18181b''),
          (''background_end'', Str ''#27272a''), (''text'', Str ''#ffffff''),
          (''text_secondary'', Str ''#a1a1aa''), (''text_light'', Str ''#ffffff'')]),
      (''fonts'', Obj
         [(''title'', Str ''Playfair Display''), (''content'', Str ''Inter''),
          (''heading'', Str ''Playfair Display''), (''body'', Str ''Inter''),
          (''sizes'', font_sizes)]),
      (''gradient'', Obj [(''angle'', Number 135)]),
      (''iconStyle'', Str ''minimal''),
      (''layoutPreference'', Str ''balanced'')]"

definition nature_green :: jsval where
  "nature_green = Obj
     [(''id'', Str ''nature_green''),
      (''name'', Str ''Nature Green''),
      (''colors'', Obj
         [(''primary'', Str ''#059669''), (''secondary'', Str ''#10b981''),
          (''accent'', Str ''#34d399''), (''background'', Str ''#f0fdf4''),
          (''background_end'', Str ''#dcfce7''), (''text'', Str ''#064e3b''),
          (''text_secondary'', Str ''#059669''), (''text_light'', Str ''#ffffff'')]),
      (''fonts'', Obj
         [(''title'', Str ''Montserrat''), (''content'', Str ''Source Sans Pro''),
          (''heading'', Str ''Montserrat''), (''body'', Str ''Source Sans Pro''),
          (''sizes'', font_sizes)]),
      (''gradient'', Obj [(''angle'', Number 120)]),
      (''iconStyle'', Str ''creative''),
      (''layoutPreference'', Str ''visual_focused'')]"

definition modern_gradient :: jsval where
  "modern_gradient = Obj
     [(''id'', Str ''modern_gradient''),
      (''name'', Str ''Modern Gradient''),
      (''colors'', Obj
         [(''primary'', Str ''#6366f1''), (''secondary'', Str ''#8b5cf6''),
          (''accent'', Str ''#ec4899''), (''background'', Str ''#ffffff''),
          (''background_end'', Str ''#f3f4f6''), (''text'', Str ''#111827''),
          (''text_secondary'', Str ''#4b5563''), (''text_light'', Str ''#ffffff'')]),
      (''fonts'', Obj
         [(''title'', Str ''Inter''), (''content'', Str ''Inter''),
          (''heading'', Str ''Inter''), (''body'', Str ''Inter''),
          (''sizes'', font_sizes)]),
      (''gradient'', Obj [(''angle'', Number 145)]),
      (''iconStyle'', Str ''modern''),
      (''layoutPreference'', Str ''visual_focused''),
      (''gradients'', Obj
         [(''primary'', Str ''linear-gradient(145deg, #6366f1, #8b5cf6)''),
          (''secondary'', Str ''linear-gradient(145deg, #8b5cf6, #ec4899)''),
          (''accent'', Str ''linear-gradient(145deg, #ec4899, #6366f1)'')])]"

definition defaultThemes :: props where
  "defaultThemes =
     [(''corporate_blue'', corporate_blue), (''elegant_dark'', elegant_dark),
      (''nature_green'', nature_green), (''modern_gradient'', modern_gradient)]"

section \<open>utils/theme-utils.js\<close>

text \<open>
  \<open>generateSlideStyles(theme, type = 'default')\<close> builds its local constants
  \<open>baseStyles\<close> and \<open>slideTypes\<close> in full, whatever \<open>type\<close> is, so every read below
  happens on every call, in this order; the first failing read is the exception thrown.
  \<open>slideTypes I theme\<close> is that table. The result is
  \<open>slideTypes[type] || slideTypes.content\<close>.
\<close>

definition headings :: string where
  "headings = ''& h1, & h2, & h3''"

definition slideTypes :: "intrinsics \<Rightarrow> jsval \<Rightarrow> error + props" where
  "slideTypes I theme =
     bindE (get2 I theme ''colors'' ''background'') (\<lambda>background.
     bindE (get2 I theme ''colors'' ''text'') (\<lambda>color.
     bindE (get2 I theme ''fonts'' ''body'') (\<lambda>fontFamily.
     let baseStyles =
           [(''background'', background), (''color'', color), (''fontFamily'', fontFamily)] in
     bindE (get2 I theme ''gradients'' ''primary'') (\<lambda>gradient_primary.
     bindE (get2 I theme ''fonts'' ''heading'') (\<lambda>title_heading.
     bindE (get2 I theme ''gradients'' ''secondary'') (\<lambda>gradient_secondary.
     bindE (get2 I theme ''fonts'' ''heading'') (\<lambda>section_heading.
     bindE (get2 I theme ''colors'' ''primary'') (\<lambda>content_primary.
     bindE (get2 I theme ''fonts'' ''heading'') (\<lambda>content_heading.
     bindE (get2 I theme ''colors'' ''secondary'') (\<lambda>strong_color.
     bindE (get2 I theme ''colors'' ''secondary'') (\<lambda>figcaption_color.
     bindE (get2 I theme ''patterns'' ''dots'') (\<lambda>dots.
     bindE (bindE (get2 I theme ''colors'' ''primary'') (toString I)) (\<lambda>border_color.
     bindE (get2 I theme ''colors'' ''secondary'') (\<lambda>cite_color.
     Inr
       [(''title'', Obj (overlay baseStyles
           [(''background'', gradient_primary),
            (''color'', Str ''#ffffff''),
            (headings, Obj [(''fontFamily'', title_heading),
                            (''marginBottom'', Str ''1.5rem'')])])),
        (''section'', Obj (overlay baseStyles
           [(''background'', gradient_secondary),
            (''color'', Str ''#ffffff''),
            (headings, Obj [(''fontFamily'', section_heading),
                            (''marginBottom'', Str ''1rem'')])])),
        (''content'', Obj (overlay baseStyles
           [(headings, Obj [(''color'', content_primary),
                            (''fontFamily'', content_heading),
                            (''marginBottom'', Str ''1rem'')]),
            (''& strong'', Obj [(''color'', strong_color)]),
            (''& ul, & ol'', Obj [(''marginLeft'', Str ''1.5rem''),
                                  (''marginBottom'', Str ''1rem'')]),
            (''& li'', Obj [(''marginBottom'', Str ''0.5rem'')])])),
        (''image'', Obj (overlay baseStyles
           [(''& figure'', Obj
               [(''margin'', Str ''1rem 0''),
                (''& img'', Obj [(''maxWidth'', Str ''100%''),
                                 (''height'', Str ''auto''),
                                 (''borderRadius'', Str ''0.5rem'')]),
                (''& figcaption'', Obj [(''marginTop'', Str ''0.5rem''),
                                        (''fontSize'', Str ''0.875rem''),
                                        (''color'', figcaption_color)])])])),
        (''quote'', Obj (overlay baseStyles
           [(''background'', dots),
            (''& blockquote'', Obj
               [(''borderLeft'', Str (''4px solid '' @ border_color)),
                (''padding'', Str ''1rem 0 1rem 1.5rem''),
                (''margin'', Str ''1rem 0''),
                (''fontStyle'', Str ''italic''),
                (''& cite'', Obj [(''display'', Str ''block''),
                                  (''marginTop'', Str ''0.5rem''),
                                  (''color'', cite_color),
                                  (''fontSize'', Str ''0.875rem'')])])]))]
     ))))))))))))))"

definition generateSlideStyles :: "intrinsics \<Rightarrow> jsval \<Rightarrow> jsval \<Rightarrow> error + jsval" where
  "generateSlideStyles I theme type_arg =
     (let type = (if type_arg = Undefined then Str ''default'' else type_arg) in
      bindE (slideTypes I theme) (\<lambda>table.
      bindE (toString I type) (\<lambda>key.
      Inr (js_or (read_object table key) (read_object table ''content'')))))"

text \<open>\<open>generateTransitionStyles(theme)\<close> does not read its argument.\<close>

definition generateTransitionStyles :: "jsval \<Rightarrow> props" where
  "generateTransitionStyles theme =
     [(''fade'', Obj
         [(''enter'', Obj [(''opacity'', Number 0)]),
          (''enterActive'', Obj [(''opacity'', Number 1),
                                 (''transition'', Str ''opacity 300ms ease-in-out'')]),
          (''exit'', Obj [(''opacity'', Number 0),
                          (''transition'', Str ''opacity 300ms ease-in-out'')])]),
      (''slide'', Obj
         [(''enter'', Obj [(''transform'', Str ''translateX(100%)'')]),
          (''enterActive'', Obj [(''transform'', Str ''translateX(0)''),
                                 (''transition'', Str ''transform 300ms ease-in-out'')]),
          (''exit'', Obj [(''transform'', Str ''translateX(-100%)''),
                          (''transition'', Str ''transform 300ms ease-in-out'')])]),
      (''scale'', Obj
         [(''enter'', Obj [(''transform'', Str ''scale(0.9)''), (''opacity'', Number 0)]),
          (''enterActive'', Obj [(''transform'', Str ''scale(1)''), (''opacity'', Number 1),
                                 (''transition'', Str ''all 300ms ease-in-out'')]),
          (''exit'', Obj [(''transform'', Str ''scale(0.9)''), (''opacity'', Number 0),
                          (''transition'', Str ''all 300ms ease-in-out'')])])]"

definition applyThemeToSlide :: "intrinsics \<Rightarrow> jsval \<Rightarrow> jsval \<Rightarrow> error + jsval" where
  "applyThemeToSlide I slide theme =
     bindE (get I slide ''type'') (\<lambda>type.
     bindE (generateSlideStyles I theme type) (\<lambda>styles.
     Inr (Obj (overlay (spread I slide)
       [(''styles'', styles),
        (''transition'', read_object (generateTransitionStyles theme) ''fade'')]))))"

definition applyThemeToPresentation :: "intrinsics \<Rightarrow> jsval \<Rightarrow> jsval \<Rightarrow> error + jsval" where
  "applyThemeToPresentation I presentation theme =
     bindE (get I presentation ''slides'') (\<lambda>slides.
     bindE (js_map I slides (\<lambda>(index, slide). applyThemeToSlide I slide theme)) (\<lambda>themed.
     bindE (get I theme ''name'') (\<lambda>name.
     bindE (get2 I theme ''colors'' ''background'') (\<lambda>background.
     bindE (get2 I theme ''colors'' ''text'') (\<lambda>color.
     bindE (get2 I theme ''fonts'' ''body'') (\<lambda>fontFamily.
     Inr (Obj (overlay (spread I presentation)
       [(''slides'', Arr themed),
        (''theme'', name),
        (''styles'', Obj [(''background'', background), (''color'', color),
                          (''fontFamily'', fontFamily)])]))))))))"

section \<open>utils/theme-utils.js over an explicit store\<close>

text \<open>
  The functions above say what theme application computes. Whether it changes the
  objects it is given is a question about the store, so the same functions follow here
  with objects and arrays held in a store at addresses; a value is then a primitive, a
  built-in or the address of a stored object or array. An object literal allocates a
  new object once its properties are evaluated (a literal cut short by an exception
  leaves nothing that can be reached, and nothing is stored for it), \<open>map\<close> allocates
  a new array, and no statement of these functions assigns to a property of an object.
  Objects are data: a property holds a value, and reading it runs no code. A call
  yields its result or its exception together with the store it leaves.
\<close>

type_synonym addr = nat

datatype hval =
    HUndefined
  | HNull
  | HBoolean bool
  | HNumber int
  | HStr string
  | HBuiltin string
  | HRef addr

type_synonym hprops = "(string \<times> hval) list"

datatype cell = Object hprops | Array "hval list"

type_synonym store = "cell list"

type_synonym 'a cmd = "store \<Rightarrow> (error + 'a) \<times> store"

definition returnS :: "'a \<Rightarrow> 'a cmd" where
  "returnS x h = (Inr x, h)"

definition throwS :: "error \<Rightarrow> 'a cmd" where
  "throwS e h = (Inl e, h)"

text \<open>A step that only reads the store.\<close>

definition readS :: "(store \<Rightarrow> error + 'a) \<Rightarrow> 'a cmd" where
  "readS r h = (r h, h)"

text \<open>Sequencing: an exception ends the call with the store as it then is.\<close>

definition bindS :: "'a cmd \<Rightarrow> ('a \<Rightarrow> 'b cmd) \<Rightarrow> 'b cmd" where
  "bindS m f h = (case m h of (Inl e, h') \<Rightarrow> (Inl e, h') | (Inr x, h') \<Rightarrow> f x h')"

fun mapS :: "('a \<Rightarrow> 'b cmd) \<Rightarrow> 'a list \<Rightarrow> 'b list cmd" where
  "mapS f [] = returnS []"
| "mapS f (x # xs) = bindS (f x) (\<lambda>y. bindS (mapS f xs) (\<lambda>ys. returnS (y # ys)))"

text \<open>Allocation: the new object or array gets the next free address.\<close>

definition new_object :: "hprops \<Rightarrow> hval cmd" where
  "new_object ps h = (Inr (HRef (length h)), h @ [Object ps])"

definition new_array :: "hval list \<Rightarrow> hval cmd" where
  "new_array xs h = (Inr (HRef (length h)), h @ [Array xs])"

text \<open>
  As before, the language's own tables are a parameter: what a read on a primitive, a
  built-in or an array yields, the text of a number, a built-in, an object or an array,
  and what a spread copies out of a string or an array. They may consult the store and
  cannot change it. \<open>no_stored_intrinsics\<close> answers reads and conversions with
  \<open>OutsideModel\<close>.
\<close>

record stored_intrinsics =
  stored_member :: "store \<Rightarrow> hval \<Rightarrow> string \<Rightarrow> error + hval"
  stored_text :: "store \<Rightarrow> hval \<Rightarrow> error + string"
  stored_spread :: "store \<Rightarrow> hval \<Rightarrow> hprops"

definition no_stored_intrinsics :: stored_intrinsics where
  "no_stored_intrinsics =
     \<lparr> stored_member = (\<lambda>h v k. Inl OutsideModel), stored_text = (\<lambda>h v. Inl OutsideModel),
       stored_spread = (\<lambda>h v. []) \<rparr>"

definition hread_object :: "hprops \<Rightarrow> string \<Rightarrow> hval" where
  "hread_object ps k =
     (case map_of ps k of
        Some v \<Rightarrow> v
      | None \<Rightarrow> (case inherited k of Builtin n \<Rightarrow> HBuiltin n | _ \<Rightarrow> HUndefined))"

text \<open>
  The property read \<open>v.k\<close>. An address beyond the store is no value of the program.
\<close>

fun hget :: "stored_intrinsics \<Rightarrow> hval \<Rightarrow> string \<Rightarrow> store \<Rightarrow> error + hval" where
  "hget I HUndefined k h = Inl (CannotReadProperty Undefined k)"
| "hget I HNull k h = Inl (CannotReadProperty Null k)"
| "hget I (HRef a) k h =
     (if a < length h
      then (case h ! a of
              Object ps \<Rightarrow> Inr (hread_object ps k)
            | Array xs \<Rightarrow> stored_member I h (HRef a) k)
      else Inl OutsideModel)"
| "hget I v k h = stored_member I h v k"

definition hget2 :: "stored_intrinsics \<Rightarrow> hval \<Rightarrow> string \<Rightarrow> string \<Rightarrow> store \<Rightarrow> error + hval" where
  "hget2 I v a b h = bindE (hget I v a h) (\<lambda>x. hget I x b h)"

fun htruthy :: "hval \<Rightarrow> bool" where
  "htruthy HUndefined = False"
| "htruthy HNull = False"
| "htruthy (HBoolean b) = b"
| "htruthy (HNumber n) = (n \<noteq> 0)"
| "htruthy (HStr s) = (s \<noteq> [])"
| "htruthy (HBuiltin n) = True"
| "htruthy (HRef a) = True"

fun htoString :: "stored_intrinsics \<Rightarrow> hval \<Rightarrow> store \<Rightarrow> error + string" where
  "htoString I HUndefined h = Inr ''undefined''"
| "htoString I HNull h = Inr ''null''"
| "htoString I (HBoolean b) h = Inr (if b then ''true'' else ''false'')"
| "htoString I (HStr s) h = Inr s"
| "htoString I v h = stored_text I h v"

text \<open>The own properties that a spread \<open>...v\<close> copies, with the values they hold.\<close>

fun hspread :: "stored_intrinsics \<Rightarrow> hval \<Rightarrow> store \<Rightarrow> hprops" where
  "hspread I (HRef a) h =
     (if a < length h
      then (case h ! a of Object ps \<Rightarrow> ps | Array xs \<Rightarrow> stored_spread I h (HRef a))
      else [])"
| "hspread I HUndefined h = []"
| "hspread I HNull h = []"
| "hspread I (HBoolean b) h = []"
| "hspread I (HNumber n) h = []"
| "hspread I v h = stored_spread I h v"

fun hassign :: "string \<Rightarrow> hval \<Rightarrow> hprops \<Rightarrow> hprops" where
  "hassign k v [] = [(k, v)]"
| "hassign k v ((k', v') # ps) = (if k' = k then (k, v) # ps else (k', v') # hassign k v ps)"

definition hoverlay :: "hprops \<Rightarrow> hprops \<Rightarrow> hprops" where
  "hoverlay base new = foldl (\<lambda>ps (k, v). hassign k v ps) base new"

text \<open>
  \<open>generateSlideStyles\<close>: the reads are those of \<open>slideTypes\<close> above, in the same order;
  each object literal of the source is one allocation, an inner literal before the one
  that holds it. \<open>{...baseStyles, ...}\<close> copies the three properties just stored in
  \<open>baseStyles\<close>.
\<close>

definition hslideTypes :: "stored_intrinsics \<Rightarrow> hval \<Rightarrow> hval cmd" where
  "hslideTypes I theme =
     bindS (readS (hget2 I theme ''colors'' ''background'')) (\<lambda>background.
     bindS (readS (hget2 I theme ''colors'' ''text'')) (\<lambda>color.
     bindS (readS (hget2 I theme ''fonts'' ''body'')) (\<lambda>fontFamily.
     let base =
           [(''background'', background), (''color'', color), (''fontFamily'', fontFamily)] in
     bindS (new_object base) (\<lambda>baseStyles.
     bindS (readS (hget2 I theme ''gradients'' ''primary'')) (\<lambda>gradient_primary.
     bindS (readS (hget2 I theme ''fonts'' ''heading'')) (\<lambda>title_heading.
     bindS (new_object [(''fontFamily'', title_heading),
                        (''marginBottom'', HStr ''1.5rem'')]) (\<lambda>title_headings.
     bindS (new_object (hoverlay base
              [(''background'', gradient_primary),
               (''color'', HStr ''#ffffff''),
               (headings, title_headings)])) (\<lambda>title.
     bindS (readS (hget2 I theme ''gradients'' ''secondary'')) (\<lambda>gradient_secondary.
     bindS (readS (hget2 I theme ''fonts'' ''heading'')) (\<lambda>section_heading.
     bindS (new_object [(''fontFamily'', section_heading),
                        (''marginBottom'', HStr ''1rem'')]) (\<lambda>section_headings.
     bindS (new_object (hoverlay base
              [(''background'', gradient_secondary),
               (''color'', HStr ''#ffffff''),
               (headings, section_headings)])) (\<lambda>section.
     bindS (readS (hget2 I theme ''colors'' ''primary'')) (\<lambda>content_primary.
     bindS (readS (hget2 I theme ''fonts'' ''heading'')) (\<lambda>content_heading.
     bindS (new_object [(''color'', content_primary),
                        (''fontFamily'', content_heading),
                        (''marginBottom'', HStr ''1rem'')]) (\<lambda>content_headings.
     bindS (readS (hget2 I theme ''colors'' ''secondary'')) (\<lambda>strong_color.
     bindS (new_object [(''color'', strong_color)]) (\<lambda>strong.
     bindS (new_object [(''marginLeft'', HStr ''1.5rem''),
                        (''marginBottom'', HStr ''1rem'')]) (\<lambda>lists.
     bindS (new_object [(''marginBottom'', HStr ''0.5rem'')]) (\<lambda>items.
     bindS (new_object (hoverlay base
              [(headings, content_headings),
               (''& strong'', strong),
               (''& ul, & ol'', lists),
               (''& li'', items)])) (\<lambda>content.
     bindS (new_object [(''maxWidth'', HStr ''100%''),
                        (''height'', HStr ''auto''),
                        (''borderRadius'', HStr ''0.5rem'')]) (\<lambda>img.
     bindS (readS (hget2 I theme ''colors'' ''secondary'')) (\<lambda>figcaption_color.
     bindS (new_object [(''marginTop'', HStr ''0.5rem''),
                        (''fontSize'', HStr ''0.875rem''),
                        (''color'', figcaption_color)]) (\<lambda>figcaption.
     bindS (new_object [(''margin'', HStr ''1rem 0''),
                        (''& img'', img),
                        (''& figcaption'', figcaption)]) (\<lambda>figure.
     bindS (new_object (hoverlay base [(''& figure'', figure)])) (\<lambda>image.
     bindS (readS (hget2 I theme ''patterns'' ''dots'')) (\<lambda>dots.
     bindS (readS (\<lambda>h. bindE (hget2 I theme ''colors'' ''primary'' h)
                              (\<lambda>v. htoString I v h))) (\<lambda>border_color.
     bindS (readS (hget2 I theme ''colors'' ''secondary'')) (\<lambda>cite_color.
     bindS (new_object [(''display'', HStr ''block''),
                        (''marginTop'', HStr ''0.5rem''),
                        (''color'', cite_color),
                        (''fontSize'', HStr ''0.875rem'')]) (\<lambda>cite.
     bindS (new_object [(''borderLeft'', HStr (''4px solid '' @ border_color)),
                        (''padding'', HStr ''1rem 0 1rem 1.5rem''),
                        (''margin'', HStr ''1rem 0''),
                        (''fontStyle'', HStr ''italic''),
                        (''& cite'', cite)]) (\<lambda>blockquote.
     bindS (new_object (hoverlay base
              [(''background'', dots),
               (''& blockquote'', blockquote)])) (\<lambda>quote.
     new_object
       [(''title'', title), (''section'', section), (''content'', content),
        (''image'', image), (''quote'', quote)]
     )))))))))))))))))))))))))))))))"

text \<open>\<open>slideTypes[type] || slideTypes.content\<close>\<close>

definition hgenerateSlideStyles :: "stored_intrinsics \<Rightarrow> hval \<Rightarrow> hval \<Rightarrow> hval cmd" where
  "hgenerateSlideStyles I theme type_arg =
     (let type = (if type_arg = HUndefined then HStr ''default'' else type_arg) in
      bindS (hslideTypes I theme) (\<lambda>table.
      bindS (readS (htoString I type)) (\<lambda>key.
      bindS (readS (hget I table key)) (\<lambda>chosen.
      if htruthy chosen then returnS chosen else readS (hget I table ''content'')))))"

definition hgenerateTransitionStyles :: "hval \<Rightarrow> hval cmd" where
  "hgenerateTransitionStyles theme =
     bindS (new_object [(''opacity'', HNumber 0)]) (\<lambda>fade_enter.
     bindS (new_object [(''opacity'', HNumber 1),
                        (''transition'', HStr ''opacity 300ms ease-in-out'')]) (\<lambda>fade_active.
     bindS (new_object [(''opacity'', HNumber 0),
                        (''transition'', HStr ''opacity 300ms ease-in-out'')]) (\<lambda>fade_exit.
     bindS (new_object [(''enter'', fade_enter), (''enterActive'', fade_active),
                        (''exit'', fade_exit)]) (\<lambda>fade.
     bindS (new_object [(''transform'', HStr ''translateX(100%)'')]) (\<lambda>slide_enter.
     bindS (new_object [(''transform'', HStr ''translateX(0)''),
                        (''transition'', HStr ''transform 300ms ease-in-out'')]) (\<lambda>slide_active.
     bindS (new_object [(''transform'', HStr ''translateX(-100%)''),
                        (''transition'', HStr ''transform 300ms ease-in-out'')]) (\<lambda>slide_exit.
     bindS (new_object [(''enter'', slide_enter), (''enterActive'', slide_active),
                        (''exit'', slide_exit)]) (\<lambda>slide.
     bindS (new_object [(''transform'', HStr ''scale(0.9)''),
                        (''opacity'', HNumber 0)]) (\<lambda>scale_enter.
     bindS (new_object [(''transform'', HStr ''scale(1)''), (''opacity'', HNumber 1),
                        (''transition'', HStr ''all 300ms ease-in-out'')]) (\<lambda>scale_active.
     bindS (new_object [(''transform'', HStr ''scale(0.9)''), (''opacity'', HNumber 0),
                        (''transition'', HStr ''all 300ms ease-in-out'')]) (\<lambda>scale_exit.
     bindS (new_object [(''enter'', scale_enter), (''enterActive'', scale_active),
                        (''exit'', scale_exit)]) (\<lambda>scale.
     new_object [(''fade'', fade), (''slide'', slide), (''scale'', scale)]
     ))))))))))))"

text \<open>
  \<open>applyThemeToSlide\<close>: the styles are resolved first; the returned literal then
  copies the slide's properties, sets \<open>styles\<close> and \<open>transition\<close>, and is allocated.
\<close>

definition happlyThemeToSlide :: "stored_intrinsics \<Rightarrow> hval \<Rightarrow> hval \<Rightarrow> hval cmd" where
  "happlyThemeToSlide I slide theme =
     bindS (readS (hget I slide ''type'')) (\<lambda>type.
     bindS (hgenerateSlideStyles I theme type) (\<lambda>styles.
     bindS (readS (\<lambda>h. Inr (hspread I slide h))) (\<lambda>copied.
     bindS (hgenerateTransitionStyles theme) (\<lambda>transitions.
     bindS (readS (hget I transitions ''fade'')) (\<lambda>fade.
     new_object (hoverlay copied [(''styles'', styles), (''transition'', fade)]))))))"

text \<open>
  \<open>xs.map(f)\<close>: on a stored array the callback runs on each element in order and the
  results are stored as a new array.
\<close>

definition hjs_map ::
  "stored_intrinsics \<Rightarrow> hval \<Rightarrow> (nat \<times> hval \<Rightarrow> hval cmd) \<Rightarrow> hval cmd" where
  "hjs_map I xs f h =
     (case (case xs of HRef a \<Rightarrow> (if a < length h then Some (h ! a) else None) | _ \<Rightarrow> None) of
        Some (Array elems) \<Rightarrow> bindS (mapS f (enumerate 0 elems)) new_array h
      | _ \<Rightarrow> bindS (readS (hget I xs ''map'')) (\<lambda>m. throwS (NotAFunction ''map'')) h)"

definition happlyThemeToPresentation :: "stored_intrinsics \<Rightarrow> hval \<Rightarrow> hval \<Rightarrow> hval cmd" where
  "happlyThemeToPresentation I presentation theme =
     bindS (readS (\<lambda>h. Inr (hspread I presentation h))) (\<lambda>copied.
     bindS (readS (hget I presentation ''slides'')) (\<lambda>slides.
     bindS (hjs_map I slides (\<lambda>(index, slide). happlyThemeToSlide I slide theme)) (\<lambda>themed.
     bindS (readS (hget I theme ''name'')) (\<lambda>name.
     bindS (readS (hget2 I theme ''colors'' ''background'')) (\<lambda>background.
     bindS (readS (hget2 I theme ''colors'' ''text'')) (\<lambda>color.
     bindS (readS (hget2 I theme ''fonts'' ''body'')) (\<lambda>fontFamily.
     bindS (new_object [(''background'', background), (''color'', color),
                        (''fontFamily'', fontFamily)]) (\<lambda>styles.
     new_object (hoverlay copied
       [(''slides'', themed), (''theme'', name), (''styles'', styles)])))))))))"

text \<open>
  A store for the examples: a slide, the array of slides and the presentation that
  holds it, a theme that has every role \<open>generateSlideStyles\<close> reads, and a theme that
  has none.
\<close>

definition sample_store :: store where
  "sample_store =
     [Object [(''title'', HStr ''Agenda'')],
      Array [HRef 0],
      Object [(''title'', HStr ''Q3 review''), (''slides'', HRef 1)],
      Object [(''primary'', HStr ''#6366f1''), (''secondary'', HStr ''#8b5cf6''),
              (''background'', HStr ''#ffffff''), (''text'', HStr ''#111827'')],
      Object [(''heading'', HStr ''Inter''), (''body'', HStr ''Inter'')],
      Object [(''primary'', HStr ''linear-gradient(145deg, #6366f1, #8b5cf6)''),
              (''secondary'', HStr ''linear-gradient(145deg, #8b5cf6, #ec4899)'')],
      Object [(''dots'', HStr ''radial-gradient(#e5e7eb 1px, transparent 1px)'')],
      Object [(''name'', HStr ''Custom''), (''colors'', HRef 3), (''fonts'', HRef 4),
              (''gradients'', HRef 5), (''patterns'', HRef 6)],
      Object [(''name'', HStr ''Bare'')]]"

text \<open>
  A call that only allocates: whatever it returns or throws, the store it leaves is the
  store it was given, cell for cell, followed by the objects it created.
\<close>

definition allocates_only :: "'a cmd \<Rightarrow> bool" where
  "allocates_only c = (\<forall>h. \<exists>new. snd (c h) = h @ new)"

section \<open>context/theme-context.jsx and hooks/use-theme.js: the active theme\<close>

text \<open>
  Both \<open>ThemeProvider\<close> and the \<open>useTheme\<close> hook keep two state cells,
  \<open>currentTheme\<close> and \<open>customTheme\<close>. A setter call is a state update.
\<close>

record theme_state =
  currentTheme :: string
  customTheme :: jsval

definition ThemeProvider :: theme_state where
  "ThemeProvider = \<lparr> currentTheme = ''corporate_blue'', customTheme = Null \<rparr>"

text \<open>\<open>customTheme || defaultThemes[currentTheme] || defaultThemes.corporate_blue\<close>\<close>

definition theme :: "theme_state \<Rightarrow> jsval" where
  "theme st =
     js_or (js_or (customTheme st) (read_object defaultThemes (currentTheme st)))
           (read_object defaultThemes ''corporate_blue'')"

text \<open>The same function in both files: \<open>if (defaultThemes[themeId]) { ... }\<close>.\<close>

definition switchTheme :: "string \<Rightarrow> theme_state \<Rightarrow> theme_state" where
  "switchTheme themeId st =
     (if truthy (read_object defaultThemes themeId)
      then st\<lparr> currentTheme := themeId, customTheme := Null \<rparr>
      else st)"

definition setTheme :: "jsval \<Rightarrow> theme_state \<Rightarrow> theme_state" where
  "setTheme themeConfig st =
     (if is_object themeConfig then st\<lparr> customTheme := themeConfig \<rparr> else st)"

text \<open>The hook \<open>useTheme(initialTheme = 'modern')\<close> of hooks/use-theme.js.\<close>

definition useTheme :: "string option \<Rightarrow> theme_state" where
  "useTheme initialTheme =
     \<lparr> currentTheme = (case initialTheme of None \<Rightarrow> ''modern'' | Some t \<Rightarrow> t),
       customTheme = Null \<rparr>"

text \<open>\<open>customTheme || defaultThemes[currentTheme]\<close>\<close>

definition hook_theme :: "theme_state \<Rightarrow> jsval" where
  "hook_theme st = js_or (customTheme st) (read_object defaultThemes (currentTheme st))"

definition updateCustomTheme :: "intrinsics \<Rightarrow> jsval \<Rightarrow> theme_state \<Rightarrow> theme_state" where
  "updateCustomTheme I themeUpdates st =
     st\<lparr> customTheme :=
           Obj (overlay
                  (spread I (js_or (customTheme st) (read_object defaultThemes (currentTheme st))))
                  (spread I themeUpdates)) \<rparr>"

text \<open>\<open>path.split('.')\<close>\<close>

fun split_on :: "char \<Rightarrow> string \<Rightarrow> string list" where
  "split_on c [] = [[]]"
| "split_on c (x # xs) =
     (if x = c then [] # split_on c xs
      else (case split_on c xs of [] \<Rightarrow> [[x]] | p # ps \<Rightarrow> (x # p) # ps))"

text \<open>
  The loop of \<open>getThemeValue\<close>:
  \<^verbatim>\<open>for (const part of parts) { if (value === undefined) break; value = value[part]; }\<close>
\<close>

fun follow :: "intrinsics \<Rightarrow> jsval \<Rightarrow> string list \<Rightarrow> error + jsval" where
  "follow I v [] = Inr v"
| "follow I v (part # parts) =
     (if v = Undefined then Inr v else bindE (get I v part) (\<lambda>v'. follow I v' parts))"

definition getThemeValue :: "intrinsics \<Rightarrow> theme_state \<Rightarrow> string \<Rightarrow> error + jsval" where
  "getThemeValue I st path = follow I (hook_theme st) (split_on CHR ''.'' path)"

section \<open>components/Presentation.jsx\<close>

definition CustomTheme :: jsval where
  "CustomTheme = Obj
     [(''colors'', Obj
         [(''primary'', Str ''rgb(37, 99, 235)''), (''secondary'', Str ''rgb(79, 70, 229)''),
          (''accent'', Str ''rgb(236, 72, 153)''), (''background'', Str ''rgb(249, 250, 251)''),
          (''text'', Str ''rgb(17, 24, 39)'')]),
      (''fonts'', Obj [(''heading'', Str ''font-sans''), (''body'', Str ''font-sans'')])]"

text \<open>
  The element \<open>renderSlide\<close> returns: the \<open>section\<close> with its key, attributes and
  inline style, the class of the inner \<open>div\<close>, the heading and the body. A class
  attribute written as a multi-line template is kept as its list of class names. The
  heading is \<open>title && <h2 ...>{title}</h2>\<close>: the element when \<open>title\<close> is truthy,
  the value of \<open>title\<close> itself otherwise.
\<close>

datatype child = Element "string list" jsval | Value jsval

record slide_section =
  key :: nat
  data_slide_type :: jsval
  className :: string
  style :: props
  content_className :: string
  h2 :: child
  body_className :: "string list"
  body :: jsval

definition getLayoutClasses :: "jsval \<Rightarrow> string" where
  "getLayoutClasses layout =
     (if layout = Str ''title'' then ''flex flex-col justify-center items-center h-full''
      else if layout = Str ''split'' then ''grid grid-cols-2 gap-8 h-full''
      else if layout = Str ''image-left'' then ''grid grid-cols-2 gap-8 h-full''
      else ''flex flex-col h-full'')"

text \<open>\<open>background?.k\<close>\<close>

definition optional_get :: "intrinsics \<Rightarrow> jsval \<Rightarrow> string \<Rightarrow> error + jsval" where
  "optional_get I v k = (if v = Undefined \<or> v = Null then Inr Undefined else get I v k)"

definition renderSlide :: "intrinsics \<Rightarrow> jsval \<Rightarrow> nat \<Rightarrow> error + slide_section" where
  "renderSlide I slide index =
     bindE (get I slide ''type'') (\<lambda>type_field.
     bindE (get I slide ''title'') (\<lambda>title.
     bindE (get I slide ''content'') (\<lambda>content.
     bindE (get I slide ''background'') (\<lambda>background.
     bindE (get I slide ''layout'') (\<lambda>layout_field.
     let type = (if type_field = Undefined then Str ''standard'' else type_field);
         layout = (if layout_field = Undefined then Str ''default'' else layout_field) in
     bindE (optional_get I background ''image'') (\<lambda>image.
     bindE (if truthy image
            then bindE (toString I image) (\<lambda>url. Inr (Str (''url('' @ url @ '')'')))
            else Inr Undefined) (\<lambda>backgroundImage.
     bindE (optional_get I background ''color'') (\<lambda>background_color.
     bindE (get2 I CustomTheme ''colors'' ''background'') (\<lambda>theme_background.
     bindE (bindE (get2 I CustomTheme ''fonts'' ''heading'') (toString I)) (\<lambda>heading_font.
     bindE (bindE (get2 I CustomTheme ''fonts'' ''body'') (toString I)) (\<lambda>body_font.
     let slideStyle =
           [(''backgroundImage'', backgroundImage),
            (''backgroundColor'', js_or background_color theme_background),
            (''backgroundSize'', Str ''cover''),
            (''backgroundPosition'', Str ''center''),
            (''height'', Str ''100%''),
            (''width'', Str ''100%''),
            (''scrollSnapAlign'', Str ''start'')] in
     Inr \<lparr> key = index,
           data_slide_type = type,
           className = ''slide relative'',
           style = slideStyle,
           content_className = ''slide-content p-12 '' @ getLayoutClasses layout,
           h2 = (if truthy title
                 then Element
                        ([heading_font, ''text-4xl'', ''md:text-6xl'', ''font-bold'', ''mb-8'']
                         @ (if type = Str ''title'' then [''text-center''] else [])
                         @ (if truthy image then [''text-white'', ''drop-shadow-lg'']
                            else [''text-gray-900'']))
                        title
                 else Value title),
           body_className =
             [''slide-body'', body_font, ''prose'', ''prose-lg'', ''max-w-none'']
             @ (if truthy image then [''text-white'', ''prose-invert''] else [''text-gray-700'']),
           body = content \<rparr>)))))))))))"

text \<open>\<open>Presentation({ slides = [] })\<close> maps \<open>renderSlide\<close> over the slides with their index.\<close>

definition Presentation :: "intrinsics \<Rightarrow> jsval \<Rightarrow> error + slide_section list" where
  "Presentation I slides_prop =
     (let slides = (if slides_prop = Undefined then Arr [] else slides_prop)
      in js_map I slides (\<lambda>(index, slide). renderSlide I slide index))"

section \<open>The Variety Enforcement Engine\<close>

text \<open>
  Modelled from the spec: the Variety Enforcement Engine (specification section 4.3) and
  the \<open>LayoutClassification\<close> it works on (section 3). No file of the sources at hand
  implements them; prompt.md asks for "a function that scans all generated slides and
  enforces layout variety (no more than one plain slide)".

  A classified slide pairs its descriptor with the flag \<open>isPlain\<close> and the layout
  \<open>family\<close>. The descriptor is left abstract. Two things the specification names
  without defining are parameters: \<open>richness\<close>, the amount of subtitle and body content
  that step 3 compares, and \<open>synthesize\<close>, the layout content that step 5 adds to a
  redesigned slide as a function of its descriptor. A third parameter is what the
  specification leaves unsaid: the flag \<open>isPlain\<close> of a redesigned slide. By section 3
  the flag is a function of the slide (true iff the background is solid, the body holds
  no more than headline and subtitle, and no split, grid or timeline structure is
  present), so \<open>stays_plain\<close> gives it from the new family and the new descriptor.
\<close>

datatype family = hero | twoColumn | cards | timeline | quoteBlock | imageFeature | plain

record 'd classified =
  descriptor :: 'd
  isPlain :: bool
  family :: family

text \<open>
  Modelled from the spec: step 1 of the engine, which is missing from the sources. The
  plain indices are those where \<open>isPlain = true\<close>. A slide of the hero family is exempt
  from the plain count (section 8: "slide 0 is hero and exempt from the plain count
  since it is forced to hero").
\<close>

definition counted_plain :: "'d classified \<Rightarrow> bool" where
  "counted_plain s = (isPlain s \<and> family s \<noteq> hero)"

definition plainIndices :: "'d classified list \<Rightarrow> nat list" where
  "plainIndices deck = filter (\<lambda>i. counted_plain (deck ! i)) [0..<length deck]"

text \<open>
  Modelled from the spec: step 3 of the engine, which is missing from the sources. The
  one slide kept plain is the plain-flagged slide with the richest content; where
  several are equally rich, and so where nothing discriminates, the lowest index.
\<close>

fun richest :: "(nat \<Rightarrow> nat) \<Rightarrow> nat \<Rightarrow> nat list \<Rightarrow> nat" where
  "richest r best [] = best"
| "richest r best (i # rest) = richest r (if r best < r i then i else best) rest"

definition kept :: "('d \<Rightarrow> nat) \<Rightarrow> 'd classified list \<Rightarrow> nat option" where
  "kept richness deck =
     (case plainIndices deck of
        [] \<Rightarrow> None
      | p # ps \<Rightarrow> Some (richest (\<lambda>i. richness (descriptor (deck ! i))) p ps))"

text \<open>
  Modelled from the spec: the choice of step 4 of the engine, which is missing from the
  sources. The replacement families are taken round-robin. From the current slot, the
  first of the five candidates that neither neighbour uses is chosen; if all five are
  blocked, the candidate of the current slot is taken regardless.
\<close>

definition candidates :: "family list" where
  "candidates = [twoColumn, cards, timeline, quoteBlock, imageFeature]"

definition candidate :: "nat \<Rightarrow> family" where
  "candidate slot = candidates ! (slot mod 5)"

definition pick :: "nat \<Rightarrow> family list \<Rightarrow> nat" where
  "pick slot neighbours =
     (case filter (\<lambda>k. candidate k \<notin> set neighbours) [slot..<slot + 5] of
        [] \<Rightarrow> slot
      | k # ks \<Rightarrow> k)"

text \<open>
  Modelled from the spec: steps 4 and 5 of the engine, which is missing from the
  sources, as one pass over the deck in deck order. \<open>i\<close> is the index of the slide at
  the head, \<open>slot\<close> the round-robin position and \<open>previous\<close> the family of the slide
  before it as it leaves the pass; the following slide is the next of the input. A
  redesigned slide gets its new family, its synthesized content and the flag that
  \<open>stays_plain\<close> derives from these. Every other slide is passed on as it is.
\<close>

fun reassign ::
  "(family \<Rightarrow> 'd \<Rightarrow> 'd) \<Rightarrow> (family \<Rightarrow> 'd \<Rightarrow> bool) \<Rightarrow> nat \<Rightarrow> nat \<Rightarrow> nat \<Rightarrow> family list
     \<Rightarrow> 'd classified list \<Rightarrow> 'd classified list" where
  "reassign synthesize stays_plain keep slot i previous [] = []"
| "reassign synthesize stays_plain keep slot i previous (s # rest) =
     (if counted_plain s \<and> i \<noteq> keep then
        let following = (case rest of [] \<Rightarrow> [] | t # ts \<Rightarrow> [family t]);
            k = pick slot (previous @ following);
            f = candidate k;
            d = synthesize f (descriptor s)
        in s\<lparr> descriptor := d, isPlain := stays_plain f d, family := f \<rparr>
           # reassign synthesize stays_plain keep (Suc k) (Suc i) [f] rest
      else s # reassign synthesize stays_plain keep slot (Suc i) [family s] rest)"

text \<open>
  Modelled from the spec: an instance of the content synthesis of step 5, the one that
  adds nothing to a descriptor.
\<close>

definition no_synthesis :: "family \<Rightarrow> 'd \<Rightarrow> 'd" where
  "no_synthesis f d = d"

text \<open>
  Modelled from the spec: two instances of the flag of a redesigned slide. With nothing
  synthesized, section 3 makes a slide redesigned into a family with split, grid or
  timeline structure (twoColumn, cards, timeline) no longer plain, and leaves one
  redesigned into quoteBlock or imageFeature plain: \<open>plain_without_structure\<close>.
  \<open>flag_cleared\<close> is the instance in which every redesigned slide has gained enough to
  be no longer plain.
\<close>

definition plain_without_structure :: "family \<Rightarrow> 'd \<Rightarrow> bool" where
  "plain_without_structure f d = (f \<noteq> twoColumn \<and> f \<noteq> cards \<and> f \<noteq> timeline)"


text \<open>
  Modelled from the spec: the Variety Enforcement Engine, missing from the sources, as
  steps 1 to 5 together; step 2 returns a deck with at most one plain index unchanged.
  \<open>plain_count\<close> is the count \<open>count(family == plain)\<close> of section 8.
\<close>

definition enforce ::
  "('d \<Rightarrow> nat) \<Rightarrow> (family \<Rightarrow> 'd \<Rightarrow> 'd) \<Rightarrow> (family \<Rightarrow> 'd \<Rightarrow> bool) \<Rightarrow> 'd classified list
     \<Rightarrow> 'd classified list" where
  "enforce richness synthesize stays_plain deck =
     (case kept richness deck of
        None \<Rightarrow> deck
      | Some keep \<Rightarrow>
          if length (plainIndices deck) \<le> 1 then deck
          else reassign synthesize stays_plain keep 0 0 [] deck)"

definition plain_count :: "'d classified list \<Rightarrow> nat" where
  "plain_count deck = length (filter (\<lambda>s. family s = plain) deck)"

text \<open>
  Modelled from the spec: the example scenario of section 8, an input of the engine
  missing from the sources. Ten slides, of which 0, 2, 5, 7 and 9 are plain
  (solid background, centred headline only) and slide 0 is the hero. The descriptor
  is the headline.
\<close>

definition example_deck :: "string classified list" where
  "example_deck =
     [\<lparr>descriptor = ''Welcome'', isPlain = True, family = hero\<rparr>,
      \<lparr>descriptor = ''Figures'', isPlain = False, family = cards\<rparr>,
      \<lparr>descriptor = ''Mission'', isPlain = True, family = plain\<rparr>,
      \<lparr>descriptor = ''Then and now'', isPlain = False, family = twoColumn\<rparr>,
      \<lparr>descriptor = ''Roadmap'', isPlain = False, family = timeline\<rparr>,
      \<lparr>descriptor = ''Vision'', isPlain = True, family = plain\<rparr>,
      \<lparr>descriptor = ''A customer'', isPlain = False, family = quoteBlock\<rparr>,
      \<lparr>descriptor = ''Values'', isPlain = True, family = plain\<rparr>,
      \<lparr>descriptor = ''Team'', isPlain = False, family = cards\<rparr>,
      \<lparr>descriptor = ''Thanks'', isPlain = True, family = plain\<rparr>]"

section \<open>A custom theme on which style resolution succeeds\<close>

text \<open>
  No registered theme has a \<open>patterns\<close> entry. \<open>patterned_theme\<close> is what the hook
  holds after \<open>useTheme('modern_gradient')\<close> and
  \<open>updateCustomTheme({patterns: {dots: ...}})\<close>.
\<close>

definition patterned_theme :: jsval where
  "patterned_theme =
     hook_theme
       (updateCustomTheme no_intrinsics
          (Obj [(''patterns'',
                 Obj [(''dots'', Str ''radial-gradient(#e5e7eb 1px, transparent 1px)'')])])
          (useTheme (Some ''modern_gradient'')))"

section \<open>Basic facts\<close>

lemma bindE_Inr_iff: "bindE m f = Inr r \<longleftrightarrow> (\<exists>v. m = Inr v \<and> f v = Inr r)"
  by (cases m) (simp_all add: bindE_def)

lemma map_sum_bindE: "map_sum id g (bindE m f) = bindE m (\<lambda>v. map_sum id g (f v))"
  by (cases m) (simp_all add: bindE_def)

lemma map_of_assign: "map_of (assign k v ps) = (map_of ps)(k \<mapsto> v)"
  by (induction ps) auto

lemma map_of_overlay_other:
  "k \<notin> fst ` set new \<Longrightarrow> map_of (overlay base new) k = map_of base k"
  unfolding overlay_def
  by (induction new arbitrary: base) (auto simp: map_of_assign)

lemmas object_reads = read_object_def inherited_def object_prototype_members_def

lemmas reads = get2_def bindE_def object_reads

lemma patterned_theme_value:
  "patterned_theme = Obj
     [(''id'', Str ''modern_gradient''),
      (''name'', Str ''Modern Gradient''),
      (''colors'', Obj
         [(''primary'', Str ''#6366f1''), (''secondary'', Str ''#8b5cf6''),
          (''accent'', Str ''#ec4899''), (''background'', Str ''#ffffff''),
          (''background_end'', Str ''#f3f4f6''), (''text'', Str ''#111827''),
          (''text_secondary'', Str ''#4b5563''), (''text_light'', Str ''#ffffff'')]),
      (''fonts'', Obj
         [(''title'', Str ''Inter''), (''content'', Str ''Inter''),
          (''heading'', Str ''Inter''), (''body'', Str ''Inter''),
          (''sizes'', font_sizes)]),
      (''gradient'', Obj [(''angle'', Number 145)]),
      (''iconStyle'', Str ''modern''),
      (''layoutPreference'', Str ''visual_focused''),
      (''gradients'', Obj
         [(''primary'', Str ''linear-gradient(145deg, #6366f1, #8b5cf6)''),
          (''secondary'', Str ''linear-gradient(145deg, #8b5cf6, #ec4899)''),
          (''accent'', Str ''linear-gradient(145deg, #ec4899, #6366f1)'')]),
      (''patterns'',
       Obj [(''dots'', Str ''radial-gradient(#e5e7eb 1px, transparent 1px)'')])]"
  by (simp add: patterned_theme_def hook_theme_def updateCustomTheme_def useTheme_def
      js_or_def read_object_def defaultThemes_def modern_gradient_def overlay_def)

lemma slideTypes_patterned: "\<exists>table. slideTypes no_intrinsics patterned_theme = Inr table"
  by (simp add: patterned_theme_value slideTypes_def reads Let_def)

section \<open>Theme resolution\<close>

text \<open>
  C2. For every registered theme and every slide type, style resolution should read
  only properties that exist on the theme, so that it never throws. The code does
  throw, on every registered theme and for every slide type: \<open>generateSlideStyles\<close>
  reads \<open>theme.gradients.primary\<close> and \<open>theme.patterns.dots\<close> unguarded while it builds
  its table, three of the four registered themes have no \<open>gradients\<close>, and none has
  \<open>patterns\<close>.
\<close>

theorem generateSlideStyles_throws_on_registered_themes:
  "generateSlideStyles I corporate_blue type = Inl (CannotReadProperty Undefined ''primary'')
   \<and> generateSlideStyles I elegant_dark type = Inl (CannotReadProperty Undefined ''primary'')
   \<and> generateSlideStyles I nature_green type = Inl (CannotReadProperty Undefined ''primary'')
   \<and> generateSlideStyles I modern_gradient type = Inl (CannotReadProperty Undefined ''dots'')"
  by (simp add: generateSlideStyles_def slideTypes_def corporate_blue_def elegant_dark_def
      nature_green_def modern_gradient_def reads Let_def)

lemma slideTypes_shape:
  assumes "slideTypes I th = Inr table"
  shows "map_of table ''default'' = None \<and> (\<exists>ps. map_of table ''content'' = Some (Obj ps))"
  using assms unfolding slideTypes_def Let_def bindE_Inr_iff
  by auto

lemma generateSlideStyles_default:
  "generateSlideStyles I th Undefined = generateSlideStyles I th (Str ''content'')"
proof (cases "slideTypes I th")
  case (Inl e)
  then show ?thesis by (simp add: generateSlideStyles_def bindE_def)
next
  case (Inr table)
  from slideTypes_shape[OF Inr] obtain ps where
    "map_of table ''default'' = None" "map_of table ''content'' = Some (Obj ps)" by blast
  then show ?thesis using Inr
    by (simp add: generateSlideStyles_def bindE_def object_reads js_or_def)
qed

lemma renderSlide_type:
  assumes "renderSlide I slide i = Inr s"
  shows "(case get I slide ''type'' of
            Inl e \<Rightarrow> False
          | Inr t \<Rightarrow> data_slide_type s = (if t = Undefined then Str ''standard'' else t))"
  using assms unfolding renderSlide_def Let_def bindE_Inr_iff
  by (clarsimp simp del: get.simps)

text \<open>
  C6, as stated, fails: a slide record without a type is not given the kind
  \<open>content\<close>. \<open>renderSlide\<close> labels it \<open>standard\<close>.
\<close>

theorem missing_type_rendered_as_standard:
  "map_sum id data_slide_type (renderSlide no_intrinsics (Obj [(''title'', Str ''Agenda'')]) 1)
     = Inr (Str ''standard'')"
  by (simp add: renderSlide_def optional_get_def CustomTheme_def reads Let_def)

text \<open>
  C6, amended. For every slide record that has no \<open>type\<close> field, style resolution is
  that of the content family: \<open>generateSlideStyles\<close> gives the missing type the default
  \<open>default\<close>, which names no entry of its table, and falls back to the content entry,
  so \<open>applyThemeToSlide\<close> attaches the content styles (or fails as resolution for
  \<open>content\<close> fails). The record is not given the kind \<open>content\<close>: \<open>renderSlide\<close>
  labels it \<open>standard\<close>.
\<close>

theorem missing_type_resolves_as_content:
  "generateSlideStyles I th Undefined = generateSlideStyles I th (Str ''content'')
   \<and> (map_of ps ''type'' = None \<longrightarrow>
        applyThemeToSlide I (Obj ps) th =
          bindE (generateSlideStyles I th (Str ''content'')) (\<lambda>styles.
            Inr (Obj (overlay ps
              [(''styles'', styles),
               (''transition'', read_object (generateTransitionStyles th) ''fade'')]))))
   \<and> (map_of ps ''type'' = None \<longrightarrow> renderSlide I (Obj ps) i = Inr s \<longrightarrow>
        data_slide_type s = Str ''standard'')"
proof (intro conjI impI)
  show "generateSlideStyles I th Undefined = generateSlideStyles I th (Str ''content'')"
    by (rule generateSlideStyles_default)
next
  assume "map_of ps ''type'' = None"
  then have "get I (Obj ps) ''type'' = Inr Undefined"
    by (simp add: object_reads)
  then show "applyThemeToSlide I (Obj ps) th =
          bindE (generateSlideStyles I th (Str ''content'')) (\<lambda>styles.
            Inr (Obj (overlay ps
              [(''styles'', styles),
               (''transition'', read_object (generateTransitionStyles th) ''fade'')])))"
    unfolding applyThemeToSlide_def
    by (simp add: bindE_def generateSlideStyles_default del: get.simps)
next
  assume "map_of ps ''type'' = None" and r: "renderSlide I (Obj ps) i = Inr s"
  then have "get I (Obj ps) ''type'' = Inr Undefined"
    by (simp add: object_reads)
  with renderSlide_type[OF r] show "data_slide_type s = Str ''standard''"
    by simp
qed

theorem missing_type_resolves_as_content_witness:
  "bindE (applyThemeToSlide no_intrinsics (Obj [(''title'', Str ''Agenda'')]) patterned_theme)
         (\<lambda>slide. get no_intrinsics slide ''styles'')
     = generateSlideStyles no_intrinsics patterned_theme (Str ''content'')
   \<and> map_sum id data_slide_type (renderSlide no_intrinsics (Obj [(''title'', Str ''Agenda'')]) 0)
     = Inr (Str ''standard'')"
proof -
  let ?ps = "[(''title'', Str ''Agenda'')]"
  have none: "map_of ?ps ''type'' = None" by simp
  obtain s where s: "renderSlide no_intrinsics (Obj ?ps) 0 = Inr s"
    by (simp add: renderSlide_def optional_get_def CustomTheme_def reads Let_def)
  note fact = missing_type_resolves_as_content
    [of no_intrinsics patterned_theme ?ps 0 s]
  from fact none s have "data_slide_type s = Str ''standard''" by blast
  moreover from fact none have
    "applyThemeToSlide no_intrinsics (Obj ?ps) patterned_theme =
       bindE (generateSlideStyles no_intrinsics patterned_theme (Str ''content'')) (\<lambda>styles.
         Inr (Obj (overlay ?ps
           [(''styles'', styles),
            (''transition'',
             read_object (generateTransitionStyles patterned_theme) ''fade'')])))"
    by blast
  ultimately show ?thesis using s
    by (cases "generateSlideStyles no_intrinsics patterned_theme (Str ''content'')")
       (simp_all add: bindE_def overlay_def object_reads)
qed

section \<open>Theme application\<close>

text \<open>
  On values first: whenever a call returns, the result is an object that has the own
  properties of the input apart from the derived ones, and on the custom theme with
  every role both functions return.
\<close>

lemma applyThemeToSlide_frame:
  assumes "applyThemeToSlide I slide th = Inr r"
  shows "\<exists>ps. r = Obj ps
           \<and> (\<forall>k. k \<noteq> ''styles'' \<and> k \<noteq> ''transition''
                  \<longrightarrow> map_of ps k = map_of (spread I slide) k)"
  using assms unfolding applyThemeToSlide_def bindE_Inr_iff
  by (auto simp: map_of_overlay_other)

lemma applyThemeToPresentation_frame:
  assumes "applyThemeToPresentation I presentation th = Inr r"
  shows "\<exists>ps. r = Obj ps
           \<and> (\<forall>k. k \<noteq> ''slides'' \<and> k \<noteq> ''theme'' \<and> k \<noteq> ''styles''
                  \<longrightarrow> map_of ps k = map_of (spread I presentation) k)"
  using assms unfolding applyThemeToPresentation_def bindE_Inr_iff
  by (auto simp: map_of_overlay_other)

lemma applyThemeToSlide_patterned:
  "\<exists>themed. applyThemeToSlide no_intrinsics (Obj [(''title'', Str ''Agenda'')]) patterned_theme
             = Inr themed"
  by (simp add: applyThemeToSlide_def generateSlideStyles_def slideTypes_def
      patterned_theme_value reads Let_def js_or_def)

lemma applyThemeToPresentation_patterned:
  "\<exists>themed. applyThemeToPresentation no_intrinsics
              (Obj [(''title'', Str ''Q3 review''),
                    (''slides'', Arr [Obj [(''title'', Str ''Agenda'')]])])
              patterned_theme
             = Inr themed"
  by (simp add: applyThemeToPresentation_def js_map_def applyThemeToSlide_def
      generateSlideStyles_def slideTypes_def patterned_theme_value reads Let_def js_or_def)

subsection \<open>Theme application over the store\<close>

text \<open>
  Every step of the two functions is a read or an allocation, so a call only
  allocates; on success the object returned is the last one allocated.
\<close>

lemma hassign_other: "k' \<noteq> k \<Longrightarrow> map_of (hassign k v ps) k' = map_of ps k'"
  by (induction ps) auto

lemma hassign_same: "map_of (hassign k v ps) k = Some v"
  by (induction ps) auto

lemma map_of_hoverlay_other:
  "k \<notin> fst ` set new \<Longrightarrow> map_of (hoverlay base new) k = map_of base k"
  unfolding hoverlay_def
  by (induction new arbitrary: base) (auto simp: hassign_other)

lemma bindS_Inr:
  "bindS m f h = (Inr r, h') \<longleftrightarrow> (\<exists>x h1. m h = (Inr x, h1) \<and> f x h1 = (Inr r, h'))"
  by (auto simp: bindS_def split: prod.splits sum.splits)

lemma readS_Inr: "readS g h = (Inr x, h1) \<longleftrightarrow> g h = Inr x \<and> h1 = h"
  by (auto simp: readS_def)

lemma new_object_Inr:
  "new_object ps h = (Inr r, h') \<longleftrightarrow> r = HRef (length h) \<and> h' = h @ [Object ps]"
  by (auto simp: new_object_def)

lemma allocates_onlyD:
  "allocates_only c \<Longrightarrow> c h = (x, h') \<Longrightarrow> \<exists>new. h' = h @ new"
  unfolding allocates_only_def by (metis snd_conv)

lemma allocates_returnS: "allocates_only (returnS x)"
  by (simp add: allocates_only_def returnS_def)

lemma allocates_throwS: "allocates_only (throwS e)"
  by (simp add: allocates_only_def throwS_def)

lemma allocates_readS: "allocates_only (readS g)"
  by (simp add: allocates_only_def readS_def)

lemma allocates_new_object: "allocates_only (new_object ps)"
  by (simp add: allocates_only_def new_object_def)

lemma allocates_new_array: "allocates_only (new_array xs)"
  by (simp add: allocates_only_def new_array_def)

lemma allocates_bindS:
  assumes m: "allocates_only m" and f: "\<And>x. allocates_only (f x)"
  shows "allocates_only (bindS m f)"
  unfolding allocates_only_def
proof
  fix h
  obtain r h1 where run: "m h = (r, h1)"
    by (cases "m h")
  from allocates_onlyD[OF m run] obtain n1 where h1: "h1 = h @ n1" ..
  show "\<exists>new. snd (bindS m f h) = h @ new"
  proof (cases r)
    case (Inl e)
    with run h1 show ?thesis by (simp add: bindS_def)
  next
    case (Inr x)
    obtain r2 h2 where run2: "f x h1 = (r2, h2)"
      by (cases "f x h1")
    from allocates_onlyD[OF f run2] obtain n2 where "h2 = h1 @ n2" ..
    with run h1 Inr run2 show ?thesis by (simp add: bindS_def)
  qed
qed

lemma allocates_if:
  "allocates_only c \<Longrightarrow> allocates_only d \<Longrightarrow> allocates_only (if b then c else d)"
  by simp

lemma allocates_mapS:
  assumes f: "\<And>x. allocates_only (f x)"
  shows "allocates_only (mapS f xs)"
  by (induction xs) (auto intro!: allocates_bindS allocates_returnS f)

lemma allocates_hslideTypes: "allocates_only (hslideTypes I th)"
  unfolding hslideTypes_def Let_def
  by (intro allocates_bindS allocates_readS allocates_new_object)

lemma allocates_hgenerateSlideStyles: "allocates_only (hgenerateSlideStyles I th t)"
  unfolding hgenerateSlideStyles_def Let_def
  by (intro allocates_bindS allocates_readS allocates_if allocates_returnS
        allocates_hslideTypes)

lemma allocates_hgenerateTransitionStyles: "allocates_only (hgenerateTransitionStyles th)"
  unfolding hgenerateTransitionStyles_def
  by (intro allocates_bindS allocates_new_object)

lemma allocates_happlyThemeToSlide: "allocates_only (happlyThemeToSlide I slide th)"
  unfolding happlyThemeToSlide_def
  by (intro allocates_bindS allocates_readS allocates_new_object
        allocates_hgenerateSlideStyles allocates_hgenerateTransitionStyles)

lemma allocates_hjs_map:
  assumes f: "\<And>x. allocates_only (f x)"
  shows "allocates_only (hjs_map I xs f)"
  unfolding allocates_only_def
proof
  fix h
  have A: "\<exists>new. snd (bindS (mapS f es) new_array h) = h @ new" for es
    using allocates_bindS[OF allocates_mapS[of f es, OF f], of new_array, OF allocates_new_array]
    unfolding allocates_only_def by (rule spec)
  have B: "\<exists>new. snd (bindS (readS (hget I xs ''map'')) (\<lambda>m. throwS (NotAFunction ''map'')) h)
             = h @ new"
    using allocates_bindS[OF allocates_readS allocates_throwS]
    unfolding allocates_only_def by (rule spec)
  have "hjs_map I xs f h
          = bindS (readS (hget I xs ''map'')) (\<lambda>m. throwS (NotAFunction ''map'')) h
        \<or> (\<exists>es. hjs_map I xs f h = bindS (mapS f es) new_array h)"
    unfolding hjs_map_def by (auto split: option.split cell.split)
  then show "\<exists>new. snd (hjs_map I xs f h) = h @ new"
  proof
    assume "hjs_map I xs f h
              = bindS (readS (hget I xs ''map'')) (\<lambda>m. throwS (NotAFunction ''map'')) h"
    with B show ?thesis by simp
  next
    assume "\<exists>es. hjs_map I xs f h = bindS (mapS f es) new_array h"
    then obtain es where "hjs_map I xs f h = bindS (mapS f es) new_array h" ..
    with A[of es] show ?thesis by simp
  qed
qed

lemma allocates_happlyThemeToPresentation:
  "allocates_only (happlyThemeToPresentation I presentation th)"
  unfolding happlyThemeToPresentation_def
  by (intro allocates_bindS allocates_readS allocates_new_object allocates_hjs_map)
     (simp add: split_def allocates_happlyThemeToSlide)

lemma hspread_stored:
  "a < length h \<Longrightarrow> h ! a = Object ps \<Longrightarrow> hspread I (HRef a) (h @ new) = ps"
  by (simp add: nth_append)

lemma happlyThemeToSlide_result:
  assumes a: "a < length h" and cell: "h ! a = Object ps"
    and run: "happlyThemeToSlide I (HRef a) th h = (Inr r, h')"
  shows "\<exists>b qs. r = HRef b \<and> length h \<le> b \<and> b < length h' \<and> h' ! b = Object qs
           \<and> (\<forall>k. k \<noteq> ''styles'' \<and> k \<noteq> ''transition'' \<longrightarrow> map_of qs k = map_of ps k)"
proof -
  from run obtain t styles h1 trans h2 fade where
    styles: "hgenerateSlideStyles I th t h = (Inr styles, h1)"
    and trans: "hgenerateTransitionStyles th h1 = (Inr trans, h2)"
    and r: "r = HRef (length h2)"
    and h': "h' = h2 @ [Object (hoverlay (hspread I (HRef a) h1)
                                  [(''styles'', styles), (''transition'', fade)])]"
    unfolding happlyThemeToSlide_def bindS_Inr readS_Inr new_object_Inr
    by (auto simp del: hget.simps hspread.simps)
  from allocates_onlyD[OF allocates_hgenerateSlideStyles styles]
  obtain n1 where h1: "h1 = h @ n1" ..
  from allocates_onlyD[OF allocates_hgenerateTransitionStyles trans]
  obtain n2 where h2: "h2 = h1 @ n2" ..
  have copied: "hspread I (HRef a) h1 = ps"
    unfolding h1 by (rule hspread_stored[OF a cell])
  let ?qs = "hoverlay ps [(''styles'', styles), (''transition'', fade)]"
  have frame: "\<forall>k. k \<noteq> ''styles'' \<and> k \<noteq> ''transition'' \<longrightarrow> map_of ?qs k = map_of ps k"
    by (simp add: map_of_hoverlay_other)
  have "r = HRef (length h2)" by (rule r)
  moreover have "length h \<le> length h2" by (simp add: h1 h2)
  moreover have "length h2 < length h'" by (simp add: h')
  moreover have "h' ! length h2 = Object ?qs" by (simp add: h' copied del: hspread.simps)
  ultimately show ?thesis using frame by blast
qed

lemma happlyThemeToPresentation_result:
  assumes a: "a < length h" and cell: "h ! a = Object ps"
    and run: "happlyThemeToPresentation I (HRef a) th h = (Inr r, h')"
  shows "\<exists>b qs. r = HRef b \<and> length h \<le> b \<and> b < length h' \<and> h' ! b = Object qs
           \<and> (\<forall>k. k \<noteq> ''slides'' \<and> k \<noteq> ''theme'' \<and> k \<noteq> ''styles''
                  \<longrightarrow> map_of qs k = map_of ps k)"
proof -
  from run obtain slides themed h1 name styles h2 where
    themed: "hjs_map I slides (\<lambda>(index, slide). happlyThemeToSlide I slide th) h
               = (Inr themed, h1)"
    and h2: "h2 = h1 @ [Object styles]"
    and r: "r = HRef (length h2)"
    and h': "h' = h2 @ [Object (hoverlay (hspread I (HRef a) h)
                                  [(''slides'', themed), (''theme'', name),
                                   (''styles'', HRef (length h1))])]"
    unfolding happlyThemeToPresentation_def bindS_Inr readS_Inr new_object_Inr
    by (auto simp del: hget.simps hspread.simps)
  have "allocates_only (hjs_map I slides (\<lambda>(index, slide). happlyThemeToSlide I slide th))"
    by (rule allocates_hjs_map) (simp add: split_def allocates_happlyThemeToSlide)
  from allocates_onlyD[OF this themed]
  obtain n1 where h1: "h1 = h @ n1" ..
  have copied: "hspread I (HRef a) h = ps"
    using hspread_stored[OF a cell, of I "[]"] by simp
  let ?qs = "hoverlay ps [(''slides'', themed), (''theme'', name),
                          (''styles'', HRef (length h1))]"
  have frame: "\<forall>k. k \<noteq> ''slides'' \<and> k \<noteq> ''theme'' \<and> k \<noteq> ''styles''
                 \<longrightarrow> map_of ?qs k = map_of ps k"
    by (simp add: map_of_hoverlay_other)
  have "r = HRef (length h2)" by (rule r)
  moreover have "length h \<le> length h2" by (simp add: h1 h2)
  moreover have "length h2 < length h'" by (simp add: h')
  moreover have "h' ! length h2 = Object ?qs" by (simp add: h' copied del: hspread.simps)
  ultimately show ?thesis using frame by blast
qed

text \<open>
  C8, as stated, fails: theme application does not return a slide for every slide and
  theme. A theme object that defines no \<open>colors\<close> is a theme the program accepts
  (\<open>setTheme\<close> installs any object), and applying it to a slide or to a presentation
  throws at the first read of a colour, so the call returns no object. The store is
  left as it was.
\<close>

theorem happlyThemeToSlide_throws_on_theme_without_roles:
  "happlyThemeToSlide no_stored_intrinsics (HRef 0) (HRef 8) sample_store
     = (Inl (CannotReadProperty Undefined ''background''), sample_store)
   \<and> fst (happlyThemeToPresentation no_stored_intrinsics (HRef 2) (HRef 8) sample_store)
     = Inl (CannotReadProperty Undefined ''background'')"
  by code_simp

text \<open>
  C8, amended. Theme application is a non-mutating stage. \<open>applyThemeToSlide\<close> and
  \<open>applyThemeToPresentation\<close> take what they use from their arguments and the store,
  and whether they return or throw, for any slide, presentation and theme, the store
  they leave is the store they were given, unchanged, followed by the objects they
  allocated. When \<open>applyThemeToSlide\<close> returns on a stored slide object, its result is
  a newly allocated object whose properties other than \<open>styles\<close> and \<open>transition\<close>
  are the own properties of the slide, with the values they hold there; when
  \<open>applyThemeToPresentation\<close> returns on a stored presentation object, its result is a
  newly allocated object whose properties other than \<open>slides\<close>, \<open>theme\<close> and
  \<open>styles\<close> are the own properties of the presentation. (Neither returns on every
  input: each throws when a read on the slide, the presentation or the theme fails.)
\<close>

theorem theme_application_allocates_only:
  "(\<exists>new. snd (happlyThemeToSlide I slide th h) = h @ new)
   \<and> (\<exists>new. snd (happlyThemeToPresentation I presentation th h) = h @ new)
   \<and> (a < length h \<and> h ! a = Object ps
        \<and> happlyThemeToSlide I (HRef a) th h = (Inr r, h')
      \<longrightarrow> (\<exists>b qs. r = HRef b \<and> length h \<le> b \<and> b < length h' \<and> h' ! b = Object qs
             \<and> (\<forall>k. k \<noteq> ''styles'' \<and> k \<noteq> ''transition''
                    \<longrightarrow> map_of qs k = map_of ps k)))
   \<and> (a < length h \<and> h ! a = Object ps
        \<and> happlyThemeToPresentation I (HRef a) th h = (Inr r, h')
      \<longrightarrow> (\<exists>b qs. r = HRef b \<and> length h \<le> b \<and> b < length h' \<and> h' ! b = Object qs
             \<and> (\<forall>k. k \<noteq> ''slides'' \<and> k \<noteq> ''theme'' \<and> k \<noteq> ''styles''
                    \<longrightarrow> map_of qs k = map_of ps k)))"
proof (intro conjI impI)
  show "\<exists>new. snd (happlyThemeToSlide I slide th h) = h @ new"
    using allocates_happlyThemeToSlide[of I slide th]
    unfolding allocates_only_def by (rule spec)
next
  show "\<exists>new. snd (happlyThemeToPresentation I presentation th h) = h @ new"
    using allocates_happlyThemeToPresentation[of I presentation th]
    unfolding allocates_only_def by (rule spec)
next
  assume "a < length h \<and> h ! a = Object ps
            \<and> happlyThemeToSlide I (HRef a) th h = (Inr r, h')"
  then show "\<exists>b qs. r = HRef b \<and> length h \<le> b \<and> b < length h' \<and> h' ! b = Object qs
             \<and> (\<forall>k. k \<noteq> ''styles'' \<and> k \<noteq> ''transition''
                    \<longrightarrow> map_of qs k = map_of ps k)"
    using happlyThemeToSlide_result[of a h ps I th r h'] by simp
next
  assume "a < length h \<and> h ! a = Object ps
            \<and> happlyThemeToPresentation I (HRef a) th h = (Inr r, h')"
  then show "\<exists>b qs. r = HRef b \<and> length h \<le> b \<and> b < length h' \<and> h' ! b = Object qs
             \<and> (\<forall>k. k \<noteq> ''slides'' \<and> k \<noteq> ''theme'' \<and> k \<noteq> ''styles''
                    \<longrightarrow> map_of qs k = map_of ps k)"
    using happlyThemeToPresentation_result[of a h ps I th r h'] by simp
qed

lemma happlyThemeToSlide_sample:
  "fst (happlyThemeToSlide no_stored_intrinsics (HRef 0) (HRef 7) sample_store) = Inr (HRef 40)"
  by code_simp

lemma happlyThemeToPresentation_sample:
  "fst (happlyThemeToPresentation no_stored_intrinsics (HRef 2) (HRef 7) sample_store)
     = Inr (HRef 43)"
  by code_simp

lemma sample_store_cells:
  "0 < length sample_store \<and> sample_store ! 0 = Object [(''title'', HStr ''Agenda'')]
   \<and> 2 < length sample_store
   \<and> sample_store ! 2 = Object [(''title'', HStr ''Q3 review''), (''slides'', HRef 1)]"
  by (simp add: sample_store_def)

theorem theme_application_allocates_only_witness:
  "fst (happlyThemeToSlide no_stored_intrinsics (HRef 0) (HRef 7) sample_store) = Inr (HRef 40)
   \<and> (\<exists>qs. snd (happlyThemeToSlide no_stored_intrinsics (HRef 0) (HRef 7) sample_store) ! 40
             = Object qs
          \<and> map_of qs ''title'' = Some (HStr ''Agenda''))
   \<and> fst (happlyThemeToPresentation no_stored_intrinsics (HRef 2) (HRef 7) sample_store)
       = Inr (HRef 43)
   \<and> (\<exists>qs. snd (happlyThemeToPresentation no_stored_intrinsics (HRef 2) (HRef 7) sample_store)
               ! 43 = Object qs
          \<and> map_of qs ''title'' = Some (HStr ''Q3 review''))"
proof -
  let ?s = "happlyThemeToSlide no_stored_intrinsics (HRef 0) (HRef 7) sample_store"
  let ?p = "happlyThemeToPresentation no_stored_intrinsics (HRef 2) (HRef 7) sample_store"
  have s: "0 < length sample_store \<and> sample_store ! 0 = Object [(''title'', HStr ''Agenda'')]
             \<and> ?s = (Inr (HRef 40), snd ?s)"
    using sample_store_cells happlyThemeToSlide_sample by (simp add: prod_eq_iff)
  have p: "2 < length sample_store
             \<and> sample_store ! 2 = Object [(''title'', HStr ''Q3 review''), (''slides'', HRef 1)]
             \<and> ?p = (Inr (HRef 43), snd ?p)"
    using sample_store_cells happlyThemeToPresentation_sample by (simp add: prod_eq_iff)
  have "\<exists>b qs. HRef 40 = HRef b \<and> length sample_store \<le> b \<and> b < length (snd ?s)
           \<and> snd ?s ! b = Object qs
           \<and> (\<forall>k. k \<noteq> ''styles'' \<and> k \<noteq> ''transition''
                  \<longrightarrow> map_of qs k = map_of [(''title'', HStr ''Agenda'')] k)"
    using theme_application_allocates_only
            [where h = sample_store and a = 0 and I = no_stored_intrinsics and th = "HRef 7"
               and ps = "[(''title'', HStr ''Agenda'')]" and r = "HRef 40" and h' = "snd ?s",
             THEN conjunct2, THEN conjunct2, THEN conjunct1, THEN mp, OF s] .
  then have slide: "\<exists>qs. snd ?s ! 40 = Object qs \<and> map_of qs ''title'' = Some (HStr ''Agenda'')"
    by (elim exE conjE allE[of _ "''title''"]) simp
  have "\<exists>b qs. HRef 43 = HRef b \<and> length sample_store \<le> b \<and> b < length (snd ?p)
           \<and> snd ?p ! b = Object qs
           \<and> (\<forall>k. k \<noteq> ''slides'' \<and> k \<noteq> ''theme'' \<and> k \<noteq> ''styles''
                  \<longrightarrow> map_of qs k
                      = map_of [(''title'', HStr ''Q3 review''), (''slides'', HRef 1)] k)"
    using theme_application_allocates_only
            [where h = sample_store and a = 2 and I = no_stored_intrinsics and th = "HRef 7"
               and ps = "[(''title'', HStr ''Q3 review''), (''slides'', HRef 1)]"
               and r = "HRef 43" and h' = "snd ?p",
             THEN conjunct2, THEN conjunct2, THEN conjunct2, THEN mp, OF p] .
  then have presentation:
    "\<exists>qs. snd ?p ! 43 = Object qs \<and> map_of qs ''title'' = Some (HStr ''Q3 review'')"
    by (elim exE conjE allE[of _ "''title''"]) simp
  show ?thesis
  proof (intro conjI)
    show "fst ?s = Inr (HRef 40)" by (rule happlyThemeToSlide_sample)
    show "\<exists>qs. snd ?s ! 40 = Object qs \<and> map_of qs ''title'' = Some (HStr ''Agenda'')"
      by (rule slide)
    show "fst ?p = Inr (HRef 43)" by (rule happlyThemeToPresentation_sample)
    show "\<exists>qs. snd ?p ! 43 = Object qs \<and> map_of qs ''title'' = Some (HStr ''Q3 review'')"
      by (rule presentation)
  qed
qed

section \<open>The active theme\<close>

text \<open>
  C3, as stated, fails: a theme entry that lacks every colour and font role is not
  rejected. \<open>setTheme\<close> installs it as the active theme, and the missing role surfaces
  only when styles are resolved.
\<close>

theorem setTheme_accepts_theme_without_roles:
  "theme (setTheme (Obj [(''name'', Str ''Bare'')]) ThemeProvider) = Obj [(''name'', Str ''Bare'')]
   \<and> generateSlideStyles no_intrinsics
        (theme (setTheme (Obj [(''name'', Str ''Bare'')]) ThemeProvider)) (Str ''content'')
     = Inl (CannotReadProperty Undefined ''background'')"
  by (simp add: setTheme_def theme_def js_or_def generateSlideStyles_def slideTypes_def reads)

text \<open>
  C3, amended. The theme registry validates nothing. The registered table is a literal
  that is never checked, and \<open>setTheme\<close> installs every non-null object it is given as
  the active theme, whatever roles it has or lacks, and ignores every other value
  without an error; no configuration error is raised at load time.
\<close>

theorem setTheme_installs_any_object:
  "(is_object themeConfig \<longrightarrow> theme (setTheme themeConfig st) = themeConfig)
   \<and> (\<not> is_object themeConfig \<longrightarrow> setTheme themeConfig st = st)"
  by (cases themeConfig) (auto simp: setTheme_def theme_def js_or_def)

theorem setTheme_installs_any_object_witness:
  "theme (setTheme (Obj []) ThemeProvider) = Obj []
   \<and> setTheme (Str ''dark'') ThemeProvider = ThemeProvider"
  using setTheme_installs_any_object [of "Obj []" ThemeProvider]
        setTheme_installs_any_object [of "Str ''dark''" ThemeProvider]
  by simp

text \<open>
  C9. \<open>switchTheme\<close> should change the selection only for an identifier that names a
  registered theme. Its test is \<open>if (defaultThemes[themeId])\<close>, and \<open>defaultThemes\<close> is
  an object literal: for the name of a member inherited from \<open>Object.prototype\<close> the
  read yields that built-in, which is truthy. \<open>switchTheme('toString')\<close> therefore
  selects \<open>toString\<close>, discards a custom theme, and leaves as active theme a built-in
  function, in \<open>ThemeProvider\<close> and in the hook alike. (In the hook, the default
  initial theme \<open>modern\<close> is not registered either, so the active theme starts
  \<open>undefined\<close>.)
\<close>

theorem switchTheme_accepts_inherited_name:
  "map_of defaultThemes ''toString'' = None
   \<and> switchTheme ''toString'' ThemeProvider
       = \<lparr> currentTheme = ''toString'', customTheme = Null \<rparr>
   \<and> theme (switchTheme ''toString'' ThemeProvider) = Builtin ''toString''
   \<and> switchTheme ''toString'' (setTheme (Obj [(''name'', Str ''Mine'')]) ThemeProvider)
       = \<lparr> currentTheme = ''toString'', customTheme = Null \<rparr>
   \<and> hook_theme (switchTheme ''toString'' (useTheme (Some ''corporate_blue'')))
       = Builtin ''toString''
   \<and> hook_theme (useTheme None) = Undefined"
  by (simp add: switchTheme_def setTheme_def theme_def hook_theme_def useTheme_def js_or_def
      ThemeProvider_def defaultThemes_def object_reads)

lemma registered_themes_truthy: "(themeId, t) \<in> set defaultThemes \<Longrightarrow> truthy t"
  by (auto simp: defaultThemes_def corporate_blue_def elegant_dark_def nature_green_def
      modern_gradient_def)

lemma switchTheme_registered:
  assumes "map_of defaultThemes themeId = Some t"
  shows "switchTheme themeId st = st\<lparr> currentTheme := themeId, customTheme := Null \<rparr>
         \<and> theme (switchTheme themeId st) = t"
proof -
  from assms have "truthy t" by (auto dest: map_of_SomeD registered_themes_truthy)
  with assms show ?thesis
    by (simp add: switchTheme_def theme_def js_or_def read_object_def)
qed

lemma switchTheme_unknown:
  "map_of defaultThemes themeId = None \<Longrightarrow> themeId \<noteq> ''__proto__''
     \<Longrightarrow> themeId \<notin> set object_prototype_members \<Longrightarrow> switchTheme themeId st = st"
  by (simp add: switchTheme_def read_object_def inherited_def)

text \<open>
  C10. \<open>getThemeValue\<close> should return a value for every theme and path and never
  throw. Its loop stops only at \<open>undefined\<close>: \<open>if (value === undefined) break\<close>. When a
  segment leads to \<open>null\<close> and the path goes on, the next read throws.
\<close>

theorem getThemeValue_throws_through_null:
  "getThemeValue I
     (updateCustomTheme I (Obj [(''colors'', Null)]) (useTheme (Some ''corporate_blue'')))
     ''colors.primary''
   = Inl (CannotReadProperty Null ''primary'')"
  by (simp add: getThemeValue_def hook_theme_def updateCustomTheme_def useTheme_def js_or_def
      read_object_def defaultThemes_def corporate_blue_def overlay_def bindE_def)

lemma follow_undefined: "follow I Undefined parts = Inr Undefined"
  by (cases parts) simp_all

lemma getThemeValue_finds_value:
  "getThemeValue I (useTheme (Some ''corporate_blue'')) ''colors.primary''
     = Inr (Str ''#1a73e8'')"
  by (simp add: getThemeValue_def hook_theme_def useTheme_def js_or_def
      defaultThemes_def corporate_blue_def bindE_def read_object_def)

lemma getThemeValue_missing_segment:
  "getThemeValue I (useTheme (Some ''corporate_blue'')) ''colors.tertiary.deeper''
     = Inr Undefined"
  by (simp add: getThemeValue_def hook_theme_def useTheme_def js_or_def
      defaultThemes_def corporate_blue_def bindE_def object_reads)

lemma getThemeValue_unregistered_initial:
  "getThemeValue I (useTheme None) ''colors.primary'' = Inr Undefined"
  by (simp add: getThemeValue_def hook_theme_def useTheme_def js_or_def
      defaultThemes_def bindE_def object_reads)

section \<open>Rendering a slide\<close>

lemma renderSlide_key:
  "renderSlide I slide i = map_sum id (\<lambda>s. s\<lparr>key := i\<rparr>) (renderSlide I slide j)"
  unfolding renderSlide_def Let_def map_sum_bindE by simp

lemma layout_title_only:
  "(getLayoutClasses l = getLayoutClasses (Str ''title'')) = (l = Str ''title'')"
  by (simp add: getLayoutClasses_def)

lemma renderSlide_layout:
  assumes "renderSlide I slide i = Inr s"
  shows "(case get I slide ''layout'' of
            Inl e \<Rightarrow> False
          | Inr l \<Rightarrow> content_className s
               = ''slide-content p-12 ''
                 @ getLayoutClasses (if l = Undefined then Str ''default'' else l))"
  using assms unfolding renderSlide_def Let_def bindE_Inr_iff
  by (clarsimp simp del: get.simps)

lemma renderSlide_title_layout:
  assumes "renderSlide I slide i = Inr s"
  shows "(content_className s = ''slide-content p-12 '' @ getLayoutClasses (Str ''title''))
         = (get I slide ''layout'' = Inr (Str ''title''))"
proof (cases "get I slide ''layout''")
  case (Inl e)
  with renderSlide_layout[OF assms] show ?thesis by simp
next
  case (Inr l)
  with renderSlide_layout[OF assms] show ?thesis
    by (cases "l = Undefined") (simp_all add: layout_title_only)
qed

text \<open>
  C4, as stated, fails: the slide at index 0 is not forced into the hero (title)
  layout. A first slide without a \<open>layout\<close> field gets the default layout, as it
  would at any other index.
\<close>

theorem first_slide_keeps_default_layout:
  "map_sum id (map content_className)
     (Presentation no_intrinsics
        (Arr [Obj [(''title'', Str ''Introduction'')], Obj [(''title'', Str ''Agenda'')]]))
     = Inr [''slide-content p-12 flex flex-col h-full'',
            ''slide-content p-12 flex flex-col h-full'']
   \<and> getLayoutClasses (Str ''title'') = ''flex flex-col justify-center items-center h-full''"
  by (simp add: Presentation_def js_map_def renderSlide_def optional_get_def CustomTheme_def
      getLayoutClasses_def reads Let_def)

text \<open>
  C4, amended. \<open>renderSlide\<close> uses the position of a slide only as the key of its
  element: the slide at index 0 is rendered exactly as it would be at any other index,
  and it gets the centred title layout if and only if its own \<open>layout\<close> field is
  \<open>title\<close>. No position forces a layout.
\<close>

theorem renderSlide_ignores_position:
  "renderSlide I slide i = map_sum id (\<lambda>s. s\<lparr>key := i\<rparr>) (renderSlide I slide j)
   \<and> (renderSlide I slide i = Inr s \<longrightarrow>
        (content_className s = ''slide-content p-12 '' @ getLayoutClasses (Str ''title''))
        = (get I slide ''layout'' = Inr (Str ''title'')))"
  using renderSlide_key renderSlide_title_layout by blast

theorem renderSlide_ignores_position_witness:
  "map_sum id content_className
     (renderSlide no_intrinsics (Obj [(''title'', Str ''Welcome''), (''layout'', Str ''title'')]) 0)
     = Inr ''slide-content p-12 flex flex-col justify-center items-center h-full''"
proof -
  let ?slide = "Obj [(''title'', Str ''Welcome''), (''layout'', Str ''title'')]"
  obtain s where s: "renderSlide no_intrinsics ?slide 0 = Inr s"
    by (simp add: renderSlide_def optional_get_def CustomTheme_def reads Let_def)
  have "get no_intrinsics ?slide ''layout'' = Inr (Str ''title'')"
    by (simp add: read_object_def)
  with renderSlide_ignores_position [of no_intrinsics ?slide 0 0 s] s
  have "content_className s = ''slide-content p-12 '' @ getLayoutClasses (Str ''title'')"
    by blast
  with s show ?thesis by (simp add: getLayoutClasses_def)
qed

section \<open>Variety enforcement\<close>

lemma candidate_in: "candidate k \<in> set candidates"
  unfolding candidate_def by (rule nth_mem) (simp add: candidates_def)

lemma plain_not_candidate: "plain \<notin> set candidates"
  by (simp add: candidates_def)

lemma reassign_length: "length (reassign syn sp keep slot i prev deck) = length deck"
  by (induction deck arbitrary: slot i prev) (auto simp: Let_def)

lemma reassign_nth:
  "j < length deck \<Longrightarrow>
   (if counted_plain (deck ! j) \<and> i + j \<noteq> keep
    then family (reassign syn sp keep slot i prev deck ! j) \<in> set candidates
         \<and> isPlain (reassign syn sp keep slot i prev deck ! j)
             = sp (family (reassign syn sp keep slot i prev deck ! j))
                  (descriptor (reassign syn sp keep slot i prev deck ! j))
    else reassign syn sp keep slot i prev deck ! j = deck ! j)"
proof (induction deck arbitrary: slot i prev j)
  case Nil
  then show ?case by simp
next
  case (Cons s rest)
  show ?case
  proof (cases j)
    case 0
    then show ?thesis by (simp add: Let_def candidate_in)
  next
    case (Suc j')
    with Cons.prems have "j' < length rest" by simp
    from Cons.IH[OF this, of "Suc i"] Suc show ?thesis
      by (simp add: Let_def)
  qed
qed

lemma filter_at_most_one:
  assumes "distinct xs" and "\<forall>j\<in>set xs. P j \<longrightarrow> j = a"
  shows "length (filter P xs) \<le> 1"
proof -
  have "distinct (filter P xs)" using assms(1) by simp
  then have "length (filter P xs) = card (set (filter P xs))"
    by (rule distinct_card[symmetric])
  also have "\<dots> \<le> card {a}"
    by (rule card_mono) (use assms(2) in auto)
  finally show ?thesis by simp
qed


lemma enforce_unchanged: "length (plainIndices deck) \<le> 1 \<Longrightarrow> enforce r syn sp deck = deck"
  by (simp add: enforce_def split: option.splits)

lemma enforce_reassigns:
  assumes "\<not> length (plainIndices deck) \<le> 1"
  obtains keep where "kept r deck = Some keep"
    and "enforce r syn sp deck = reassign syn sp keep 0 0 [] deck"
proof -
  from assms obtain p ps where "plainIndices deck = p # ps"
    by (cases "plainIndices deck") auto
  then have "kept r deck = Some (richest (\<lambda>i. r (descriptor (deck ! i))) p ps)"
    by (simp add: kept_def)
  with assms that show thesis by (simp add: enforce_def)
qed


lemma length_filter_indices:
  "length (filter P xs) = length (filter (\<lambda>j. P (xs ! j)) [0..<length xs])"
proof (induction xs rule: rev_induct)
  case Nil
  then show ?case by simp
next
  case (snoc x xs)
  have "filter (\<lambda>j. P ((xs @ [x]) ! j)) [0..<length xs] = filter (\<lambda>j. P (xs ! j)) [0..<length xs]"
    by (rule filter_cong) (auto simp: nth_append)
  with snoc show ?case by simp
qed

lemma plain_count_indices:
  "plain_count deck = length (filter (\<lambda>j. family (deck ! j) = plain) [0..<length deck])"
  unfolding plain_count_def by (rule length_filter_indices)

lemma length_filter_mono:
  "(\<And>x. x \<in> set xs \<Longrightarrow> P x \<Longrightarrow> Q x) \<Longrightarrow> length (filter P xs) \<le> length (filter Q xs)"
  by (induction xs) auto

lemma richest_mem: "richest r best is \<in> set (best # is)"
  by (induction "is" arbitrary: best) auto

lemma kept_flagged: "kept r deck = Some k \<Longrightarrow> k < length deck \<and> counted_plain (deck ! k)"
proof -
  assume a: "kept r deck = Some k"
  then obtain p ps where ps: "plainIndices deck = p # ps"
    and k: "k = richest (\<lambda>i. r (descriptor (deck ! i))) p ps"
    by (auto simp: kept_def split: list.splits)
  have "k \<in> set (plainIndices deck)" unfolding ps k by (rule richest_mem)
  then show ?thesis by (simp add: plainIndices_def)
qed

lemma variety_a:
  assumes "\<forall>s\<in>set deck. family s = plain \<longrightarrow> isPlain s"
  shows "plain_count (enforce r syn sp deck) \<le> 1"
proof (cases "length (plainIndices deck) \<le> 1")
  case True
  have "plain_count deck \<le> length (plainIndices deck)"
    unfolding plain_count_indices plainIndices_def
    by (rule length_filter_mono) (use assms in \<open>auto simp: counted_plain_def\<close>)
  with True show ?thesis by (simp add: enforce_unchanged)
next
  case False
  then obtain keep where e: "enforce r syn sp deck = reassign syn sp keep 0 0 [] deck"
    by (rule enforce_reassigns)
  have "length (filter (\<lambda>j. family (reassign syn sp keep 0 0 [] deck ! j) = plain) [0..<length deck]) \<le> 1"
  proof (rule filter_at_most_one[where a = keep])
    show "distinct [0..<length deck]" by simp
    show "\<forall>j\<in>set [0..<length deck]. family (reassign syn sp keep 0 0 [] deck ! j) = plain \<longrightarrow> j = keep"
    proof
      fix j assume "j \<in> set [0..<length deck]"
      then have j: "j < length deck" by simp
      then have "deck ! j \<in> set deck" by simp
      with assms have "family (deck ! j) = plain \<longrightarrow> counted_plain (deck ! j)"
        by (auto simp: counted_plain_def)
      with reassign_nth[OF j, where i = 0 and keep = keep and syn = syn and sp = sp and slot = 0 and prev = "[]"] plain_not_candidate
      show "family (reassign syn sp keep 0 0 [] deck ! j) = plain \<longrightarrow> j = keep"
        by (auto split: if_splits)
    qed
  qed
  then show ?thesis by (simp add: e plain_count_indices reassign_length)
qed

lemma variety_b:
  assumes "i < length deck" "counted_plain (deck ! i)" "kept r deck \<noteq> Some i"
  shows "family (enforce r syn sp deck ! i) \<in> set candidates"
proof (cases "length (plainIndices deck) \<le> 1")
  case True
  have "i \<in> set (plainIndices deck)" using assms by (simp add: plainIndices_def)
  with True have "plainIndices deck = [i]"
    by (cases "plainIndices deck") auto
  then have "kept r deck = Some i" by (simp add: kept_def)
  with assms show ?thesis by simp
next
  case False
  then obtain keep where k: "kept r deck = Some keep"
    and e: "enforce r syn sp deck = reassign syn sp keep 0 0 [] deck"
    by (rule enforce_reassigns)
  with assms have "i \<noteq> keep" by auto
  with reassign_nth[OF assms(1), where i = 0 and keep = keep and syn = syn and sp = sp and slot = 0 and prev = "[]"] assms(2) show ?thesis
    by (simp add: e)
qed

lemma variety_keep:
  assumes "kept r deck = Some k"
  shows "enforce r syn sp deck ! k = deck ! k"
proof (cases "length (plainIndices deck) \<le> 1")
  case True
  then show ?thesis by (simp add: enforce_unchanged)
next
  case False
  from kept_flagged[OF assms] have "k < length deck" by simp
  from reassign_nth[OF this, where i = 0 and keep = k and syn = syn and sp = sp and slot = 0 and prev = "[]"] assms False show ?thesis
    by (simp add: enforce_def)
qed


lemma flagged_not_kept_leaves_plain:
  assumes "i < length deck" "isPlain (deck ! i)" "kept r deck \<noteq> Some i"
  shows "family (enforce r syn sp deck ! i) \<noteq> plain"
proof (cases "family (deck ! i) = hero")
  case True
  have "enforce r syn sp deck ! i = deck ! i"
  proof (cases "length (plainIndices deck) \<le> 1")
    case True
    then show ?thesis by (simp add: enforce_unchanged)
  next
    case False
    then obtain keep where "enforce r syn sp deck = reassign syn sp keep 0 0 [] deck"
      by (rule enforce_reassigns)
    with reassign_nth[OF assms(1), where i = 0 and keep = keep and syn = syn and sp = sp and slot = 0 and prev = "[]"] True show ?thesis
      by (simp add: counted_plain_def)
  qed
  with True show ?thesis by simp
next
  case False
  with assms have "family (enforce r syn sp deck ! i) \<in> set candidates"
    by (intro variety_b) (simp_all add: counted_plain_def)
  with plain_not_candidate show ?thesis by auto
qed

text \<open>
  On the example scenario of section 8 the model keeps slide 2 plain and gives slides
  5, 7 and 9 three distinct families, none that of a neighbour; slide 0 stays hero.
\<close>

lemma example_scenario:
  "map family (enforce length no_synthesis plain_without_structure example_deck)
     = [hero, cards, plain, twoColumn, timeline, twoColumn, quoteBlock, timeline, cards,
        quoteBlock]"
  by code_simp

text \<open>
  C1, as stated, fails on the engine as specified: the count of section 8 is over
  \<open>family = plain\<close>, the partition of step 1 over \<open>isPlain\<close>. A deck of two ordinary text
  slides, neither flagged \<open>isPlain\<close> (each has a body) and both classified into the
  fallback family \<open>plain\<close>, has no plain index, is returned unchanged by step 2, and
  keeps two slides of family \<open>plain\<close>.
\<close>

theorem unflagged_plain_family_survives:
  "plain_count (enforce length no_synthesis plain_without_structure
     [\<lparr>descriptor = ''Revenue grew in every region'', isPlain = False, family = plain\<rparr>,
      \<lparr>descriptor = ''Costs fell for the third year'', isPlain = False, family = plain\<rparr>])
   = 2"
  by (simp add: enforce_def kept_def plainIndices_def counted_plain_def plain_count_def)

text \<open>
  C1, amended. For every input deck in which only slides flagged \<open>isPlain\<close> have the
  family \<open>plain\<close>, the sequence returned by Variety Enforcement contains at most one
  slide of family \<open>plain\<close>; and in every deck, each slide flagged \<open>isPlain\<close> before
  enforcement, except the single kept one, has a non-plain family afterwards, while the
  kept one is returned as it was.
\<close>

theorem variety_after_enforcement:
  "((\<forall>s\<in>set deck. family s = plain \<longrightarrow> isPlain s)
      \<longrightarrow> plain_count (enforce richness synthesize stays_plain deck) \<le> 1)
   \<and> (\<forall>i<length deck. isPlain (deck ! i) \<and> kept richness deck \<noteq> Some i
      \<longrightarrow> family (enforce richness synthesize stays_plain deck ! i) \<noteq> plain)
   \<and> (kept richness deck = Some k \<longrightarrow> enforce richness synthesize stays_plain deck ! k = deck ! k)"
proof (intro conjI impI allI)
  assume "\<forall>s\<in>set deck. family s = plain \<longrightarrow> isPlain s"
  then show "plain_count (enforce richness synthesize stays_plain deck) \<le> 1"
    by (rule variety_a)
next
  fix i
  assume "i < length deck" and "isPlain (deck ! i) \<and> kept richness deck \<noteq> Some i"
  then show "family (enforce richness synthesize stays_plain deck ! i) \<noteq> plain"
    by (intro flagged_not_kept_leaves_plain) simp_all
next
  assume "kept richness deck = Some k"
  then show "enforce richness synthesize stays_plain deck ! k = deck ! k"
    by (rule variety_keep)
qed

theorem variety_after_enforcement_witness:
  "kept length example_deck = Some 2
   \<and> isPlain (example_deck ! 7)
   \<and> plain_count (enforce length no_synthesis plain_without_structure example_deck) \<le> 1
   \<and> family (enforce length no_synthesis plain_without_structure example_deck ! 7) \<noteq> plain
   \<and> enforce length no_synthesis plain_without_structure example_deck ! 2 = example_deck ! 2"
proof -
  have h: "\<forall>s\<in>set example_deck. family s = plain \<longrightarrow> isPlain s"
    by (simp add: example_deck_def)
  have k: "kept length example_deck = Some 2"
    by code_simp
  have f: "isPlain (example_deck ! 7)" and l: "7 < length example_deck"
    by (simp_all add: example_deck_def)
  note fact = variety_after_enforcement
    [of example_deck length no_synthesis plain_without_structure 2]
  from fact h have "plain_count (enforce length no_synthesis plain_without_structure example_deck) \<le> 1"
    by blast
  moreover from fact l f k
  have "family (enforce length no_synthesis plain_without_structure example_deck ! 7) \<noteq> plain"
    by simp
  moreover from fact k
  have "enforce length no_synthesis plain_without_structure example_deck ! 2 = example_deck ! 2"
    by blast
  ultimately show ?thesis using k f by simp
qed




end
